theory Spec2Isabelle
  imports Main
begin

section \<open>Data model\<close>

text \<open>
  The objects of \<^verbatim>\<open>main.py\<close>. Python objects are compared by identity (no class defines
  \<^verbatim>\<open>__eq__\<close>), so an object reference is a number: a project is named by its position in
  \<^verbatim>\<open>ProjectController.projects\<close>, an application by its position in
  \<^verbatim>\<open>ApplicationController.applications\<close>, an applicant or officer by its position in the list
  returned by \<^verbatim>\<open>load_applicants\<close> or \<^verbatim>\<open>load_officers\<close>. Nothing is ever removed from these
  lists. A manager has no field that any modelled operation reads, so a manager is only its
  identity.
\<close>

type_synonym date = "nat \<times> nat \<times> nat"

text \<open>The value stored under a flat type: \<^verbatim>\<open>{"units": ..., "price": ...}\<close>.\<close>

record flat_info =
  units :: int
  price :: int

record BTOProject =
  projectID :: nat
  projectName :: string
  neighborhood :: string
  flatTypes :: "string \<rightharpoonup> flat_info"
  applicationOpenDate :: "date option"
  applicationCloseDate :: "date option"
  manager :: "nat option"
  officers :: "nat list"
  visibility :: bool
  officerSlot :: int

text \<open>
  \<^verbatim>\<open>Application\<close>. The status is the string the source stores; \<^verbatim>\<open>applicant\<close> and
  \<^verbatim>\<open>BTOProject\<close> are references.
\<close>

datatype person = AnApplicant nat | AnOfficer nat

record Application =
  applicant :: person
  BTOProject :: nat
  applicationStatus :: string
  chosen_flat_type :: string
  requested_withdrawal :: bool

text \<open>
  \<^verbatim>\<open>Applicant(User)\<close> and \<^verbatim>\<open>HDBOfficer(Applicant)\<close>: the subclass is the record extension.
  \<^verbatim>\<open>applications\<close> holds references to application objects. The password, the enquiries
  and \<^verbatim>\<open>HDBManager.projects_handling\<close> take no part in the application and registration
  lifecycles and are left out.
\<close>

record Applicant =
  userID :: string
  age :: int
  marital_status :: string
  name :: string
  applications :: "nat list"

record HDBOfficer = Applicant +
  handling_project :: "nat option"
  registration_status :: "string option"
  registered_project :: "nat option"

text \<open>The objects alive in one run of \<^verbatim>\<open>main\<close>.\<close>

record store =
  applicant_objs :: "Applicant list"
  officer_objs :: "HDBOfficer list"
  project_objs :: "BTOProject list"
  application_objs :: "Application list"

text \<open>
  A method returns after printing one message, or raises. \<^verbatim>\<open>report\<close> names the message
  with the failure reasons of the specification; \<^verbatim>\<open>pyexn\<close> is an exception leaving the
  method.

  \<^item> \<open>Done\<close>: the closing message of the successful path;
  \<^item> \<open>DuplicateActiveApplication\<close>: "You already have an active application. Cannot apply again.";
  \<^item> \<open>EligibilityDenied\<close>: the four messages of the age, marital status and flat type checks;
  \<^item> \<open>UnitsExhausted\<close>: "No available units for ..." and "Not enough units left for that flat type! Cannot approve.";
  \<^item> \<open>InvalidStateTransition\<close>: "This application is not Pending. Cannot approve/reject.",
    "Officer's registration is not pending." and
    "This application is either unsuccessful or booked; cannot withdraw.";
  \<^item> \<open>AuthorizationDenied\<close>: "You are not the manager of this project." and "You are not handling this project.";
  \<^item> \<open>SlotExhausted\<close>: "No more officer slots available.";
  \<^item> \<open>NoWithdrawalRequested\<close>: "No withdrawal requested.";
  \<^item> \<open>CannotWithdraw\<close>: "Application cannot be withdrawn from this state.";
  \<^item> \<open>NoRegistration\<close>: "Officer has no project registration pending.";
  \<^item> \<open>AlreadyHandling\<close>: "You are already handling another project. Cannot register.";
  \<^item> \<open>AlreadyApplied\<close>: "You have already applied for this project as an Applicant. ...";
  \<^item> \<open>NoApplications\<close>: "No applications to withdraw.";
  \<^item> \<open>InvalidChoice\<close>, \<open>InvalidInput\<close>: "Invalid choice." and "Invalid input.";
  \<^item> \<open>NoObject\<close>: a reference that names no object of the store. A Python reference always
    names an object, so this outcome does not exist in the source; the model leaves the
    store unchanged there.
\<close>

datatype report =
    Done | DuplicateActiveApplication | EligibilityDenied | UnitsExhausted
  | InvalidStateTransition | AuthorizationDenied | SlotExhausted
  | NoWithdrawalRequested | CannotWithdraw | NoRegistration | AlreadyHandling
  | AlreadyApplied | NoApplications | InvalidChoice | InvalidInput | NoObject

datatype pyexn = KeyError

type_synonym outcome = "pyexn + report \<times> store"

definition deref :: "'a list \<Rightarrow> nat \<Rightarrow> 'a option" where
  "deref xs i = (if i < length xs then Some (xs ! i) else None)"

text \<open>The \<^verbatim>\<open>Applicant\<close> part of an applicant or officer object.\<close>

definition the_applicant :: "store \<Rightarrow> person \<Rightarrow> Applicant option" where
  "the_applicant s who =
     (case who of
        AnApplicant i \<Rightarrow> deref (applicant_objs s) i
      | AnOfficer i \<Rightarrow> map_option Applicant.truncate (deref (officer_objs s) i))"

text \<open>\<^verbatim>\<open>self.applications.append(app)\<close> on an applicant or officer object.\<close>

definition append_application :: "store \<Rightarrow> person \<Rightarrow> nat \<Rightarrow> store" where
  "append_application s who a =
     (case who of
        AnApplicant i \<Rightarrow>
          s\<lparr>applicant_objs := (applicant_objs s)
               [i := (applicant_objs s ! i)\<lparr>applications := applications (applicant_objs s ! i) @ [a]\<rparr>]\<rparr>
      | AnOfficer i \<Rightarrow>
          s\<lparr>officer_objs := (officer_objs s)
               [i := (officer_objs s ! i)\<lparr>applications := applications (officer_objs s ! i) @ [a]\<rparr>]\<rparr>)"

section \<open>Project registry\<close>

text \<open>
  \<^verbatim>\<open>BTOProject.reduceUnits\<close>: subtract, then reset a negative count to zero; an unknown
  flat type changes nothing.
\<close>

definition reduceUnits :: "BTOProject \<Rightarrow> string \<Rightarrow> int \<Rightarrow> BTOProject" where
  "reduceUnits self flat_type num =
     (case flatTypes self flat_type of
        None \<Rightarrow> self
      | Some info \<Rightarrow>
          (let info1 = info\<lparr>units := units info - num\<rparr>;
               info2 = (if units info1 < 0 then info1\<lparr>units := 0\<rparr> else info1)
           in self\<lparr>flatTypes := (flatTypes self)(flat_type \<mapsto> info2)\<rparr>))"

section \<open>Applicant\<close>

text \<open>
  \<^verbatim>\<open>str.lower()\<close>. A string is its UTF-8 bytes; the letters A to Z are mapped to a to z
  and every other byte is kept. The source only compares the result with \<^verbatim>\<open>"single"\<close>,
  and no character outside ASCII has a lower-case form made of the letters of that word, so
  the comparison comes out as in Python.
\<close>

definition lower_char :: "char \<Rightarrow> char" where
  "lower_char c =
     (case map_of (zip ''ABCDEFGHIJKLMNOPQRSTUVWXYZ'' ''abcdefghijklmnopqrstuvwxyz'') c of
        None \<Rightarrow> c
      | Some d \<Rightarrow> d)"

definition lower :: "string \<Rightarrow> string" where
  "lower str = map lower_char str"

text \<open>
  Lines 50 to 63 of \<^verbatim>\<open>Applicant.applyForProject\<close>: the age, marital status and flat type
  checks. \<open>None\<close> means that no check returned.
\<close>

definition eligibility :: "Applicant \<Rightarrow> string \<Rightarrow> report option" where
  "eligibility self flat_type =
     (if lower (marital_status self) = ''single'' then
        (if age self < 35 then Some EligibilityDenied
         else if flat_type \<noteq> ''2-Room'' then Some EligibilityDenied
         else None)
      else
        (if age self < 21 then Some EligibilityDenied
         else if flat_type \<notin> set [''2-Room'', ''3-Room''] then Some EligibilityDenied
         else None))"

text \<open>
  Lines 154 to 165 of \<^verbatim>\<open>Applicant.viewProjects\<close>: \<open>None\<close> when the method returns with
  "no projects are eligible", otherwise the list \<^verbatim>\<open>can_apply_types\<close>.
\<close>

definition can_apply_types :: "Applicant \<Rightarrow> string list option" where
  "can_apply_types self =
     (if lower (marital_status self) = ''single'' \<and> age self < 35 then None
      else if lower (marital_status self) \<noteq> ''single'' \<and> age self < 21 then None
      else if lower (marital_status self) = ''single'' then Some [''2-Room'']
      else Some [''2-Room'', ''3-Room''])"

text \<open>The flat types \<^verbatim>\<open>viewProjects\<close> looks for on behalf of a person.\<close>

definition eligibleFlatTypes :: "Applicant \<Rightarrow> string set" where
  "eligibleFlatTypes self = (case can_apply_types self of None \<Rightarrow> {} | Some ts \<Rightarrow> set ts)"

text \<open>
  The list comprehension of lines 44 and 45: the person's applications whose status is
  Pending or Successful.
\<close>

definition active_app :: "store \<Rightarrow> Applicant \<Rightarrow> nat list" where
  "active_app s self =
     filter (\<lambda>a. case deref (application_objs s) a of
                    None \<Rightarrow> False
                  | Some app \<Rightarrow> applicationStatus app \<in> set [''Pending'', ''Successful''])
            (applications self)"

text \<open>\<^verbatim>\<open>Application.__init__\<close>.\<close>

definition Application_init :: "person \<Rightarrow> nat \<Rightarrow> string \<Rightarrow> Application" where
  "Application_init who project flat_type =
     \<lparr>applicant = who, BTOProject = project, applicationStatus = ''Pending'',
      chosen_flat_type = flat_type, requested_withdrawal = False\<rparr>"

text \<open>\<^verbatim>\<open>Application.updateStatus\<close>, on the object behind a reference.\<close>

definition updateStatus :: "store \<Rightarrow> nat \<Rightarrow> string \<Rightarrow> store" where
  "updateStatus s a new_status =
     s\<lparr>application_objs :=
         (application_objs s)[a := (application_objs s ! a)\<lparr>applicationStatus := new_status\<rparr>]\<rparr>"

definition set_requested_withdrawal :: "store \<Rightarrow> nat \<Rightarrow> bool \<Rightarrow> store" where
  "set_requested_withdrawal s a b =
     s\<lparr>application_objs :=
         (application_objs s)[a := (application_objs s ! a)\<lparr>requested_withdrawal := b\<rparr>]\<rparr>"

text \<open>
  \<^verbatim>\<open>Applicant.applyForProject\<close>. The lookup \<^verbatim>\<open>project.flatTypes[flat_type]\<close> of line 65
  raises \<^verbatim>\<open>KeyError\<close> for a flat type the project does not have. The new application object
  is appended to the controller's list, so its reference is the length of that list.
\<close>

definition applyForProject :: "store \<Rightarrow> person \<Rightarrow> nat \<Rightarrow> string \<Rightarrow> outcome" where
  "applyForProject s self project flat_type =
     (case the_applicant s self of
        None \<Rightarrow> Inr (NoObject, s)
      | Some u \<Rightarrow>
     (case deref (project_objs s) project of
        None \<Rightarrow> Inr (NoObject, s)
      | Some p \<Rightarrow>
          if active_app s u \<noteq> [] then Inr (DuplicateActiveApplication, s)
          else (case eligibility u flat_type of
                  Some r \<Rightarrow> Inr (r, s)
                | None \<Rightarrow>
                    (case flatTypes p flat_type of
                       None \<Rightarrow> Inl KeyError
                     | Some info \<Rightarrow>
                         if units info \<le> 0 then Inr (UnitsExhausted, s)
                         else
                           (let app = Application_init self project flat_type;
                                a = length (application_objs s);
                                s1 = s\<lparr>application_objs := application_objs s @ [app]\<rparr>
                            in Inr (Done, append_application s1 self a))))))"

text \<open>
  \<^verbatim>\<open>Applicant.requestWithdrawal\<close>. \<open>choice\<close> is the number typed at the prompt, \<open>None\<close> when
  \<^verbatim>\<open>int(choice)\<close> raises \<^verbatim>\<open>ValueError\<close>.
\<close>

definition requestWithdrawal :: "store \<Rightarrow> person \<Rightarrow> int option \<Rightarrow> outcome" where
  "requestWithdrawal s self choice =
     (case the_applicant s self of
        None \<Rightarrow> Inr (NoObject, s)
      | Some u \<Rightarrow>
          if applications u = [] then Inr (NoApplications, s)
          else (case choice of
                  None \<Rightarrow> Inr (InvalidInput, s)
                | Some c \<Rightarrow>
                    (let choice_idx = c - 1 in
                     if 0 \<le> choice_idx \<and> choice_idx < int (length (applications u)) then
                       (let a = applications u ! nat choice_idx in
                        case deref (application_objs s) a of
                          None \<Rightarrow> Inr (NoObject, s)
                        | Some app_to_withdraw \<Rightarrow>
                            if applicationStatus app_to_withdraw \<in> set [''Unsuccessful'', ''Booked'']
                            then Inr (InvalidStateTransition, s)
                            else Inr (Done, set_requested_withdrawal s a True))
                     else Inr (InvalidChoice, s))))"

section \<open>Officer\<close>

text \<open>\<^verbatim>\<open>HDBOfficer.registerToProject\<close>.\<close>

definition registerToProject :: "store \<Rightarrow> nat \<Rightarrow> nat \<Rightarrow> outcome" where
  "registerToProject s self project =
     (case deref (officer_objs s) self of
        None \<Rightarrow> Inr (NoObject, s)
      | Some off \<Rightarrow>
     (case deref (project_objs s) project of
        None \<Rightarrow> Inr (NoObject, s)
      | Some p \<Rightarrow>
          if handling_project off \<noteq> None then Inr (AlreadyHandling, s)
          else if list_ex (\<lambda>a. case deref (application_objs s) a of
                                  None \<Rightarrow> False
                                | Some app \<Rightarrow> BTOProject app = project)
                          (applications off)
          then Inr (AlreadyApplied, s)
          else Inr (Done, s\<lparr>officer_objs := (officer_objs s)
                 [self := off\<lparr>registered_project := Some project,
                              registration_status := Some ''Pending''\<rparr>]\<rparr>)))"

text \<open>\<^verbatim>\<open>HDBOfficer.updateFlatAvailability\<close>: the officer's booking update.\<close>

definition updateFlatAvailability :: "store \<Rightarrow> nat \<Rightarrow> nat \<Rightarrow> string \<Rightarrow> int \<Rightarrow> outcome" where
  "updateFlatAvailability s self project flat_type number_booked =
     (case deref (officer_objs s) self of
        None \<Rightarrow> Inr (NoObject, s)
      | Some off \<Rightarrow>
     (case deref (project_objs s) project of
        None \<Rightarrow> Inr (NoObject, s)
      | Some p \<Rightarrow>
          if handling_project off \<noteq> Some project then Inr (AuthorizationDenied, s)
          else Inr (Done, s\<lparr>project_objs := (project_objs s)
                 [project := reduceUnits p flat_type number_booked]\<rparr>)))"

section \<open>Manager\<close>

text \<open>
  \<^verbatim>\<open>BTOProject.__init__\<close>, called by \<^verbatim>\<open>HDBManager.createBTOProject\<close>. \<open>counter\<close> is the class
  attribute \<^verbatim>\<open>project_counter\<close>.
\<close>

definition BTOProject_init ::
  "nat \<Rightarrow> string \<Rightarrow> string \<Rightarrow> (string \<rightharpoonup> flat_info) \<Rightarrow> date option \<Rightarrow> date option \<Rightarrow>
   nat option \<Rightarrow> int \<Rightarrow> BTOProject" where
  "BTOProject_init counter project_name nbhd flat_types open_date close_date mgr slot =
     \<lparr>projectID = counter, projectName = project_name, neighborhood = nbhd,
      flatTypes = flat_types, applicationOpenDate = open_date,
      applicationCloseDate = close_date, manager = mgr, officers = [],
      visibility = True, officerSlot = slot\<rparr>"

text \<open>
  \<^verbatim>\<open>HDBManager.createBTOProject\<close> followed by \<^verbatim>\<open>proj_controller.addProject\<close>, as \<^verbatim>\<open>main\<close>
  calls them. The counter starts at 1 and every project made is in the controller's list.
\<close>

definition createBTOProject ::
  "store \<Rightarrow> nat \<Rightarrow> string \<Rightarrow> string \<Rightarrow> (string \<rightharpoonup> flat_info) \<Rightarrow> date option \<Rightarrow> date option \<Rightarrow>
   int \<Rightarrow> store" where
  "createBTOProject s self project_name nbhd flat_types open_date close_date slot =
     s\<lparr>project_objs := project_objs s @
         [BTOProject_init (length (project_objs s) + 1) project_name nbhd flat_types
            open_date close_date (Some self) slot]\<rparr>"

text \<open>
  \<^verbatim>\<open>HDBManager.editBTOProject\<close>. \<^verbatim>\<open>if new_name:\<close> is false for \<^verbatim>\<open>None\<close> and for the empty
  string, \<^verbatim>\<open>if new_flat_types:\<close> for \<^verbatim>\<open>None\<close> and for the empty dictionary.
\<close>

definition editBTOProject ::
  "store \<Rightarrow> nat \<Rightarrow> nat \<Rightarrow> string option \<Rightarrow> string option \<Rightarrow> (string \<rightharpoonup> flat_info) option \<Rightarrow>
   outcome" where
  "editBTOProject s self project new_name new_neighborhood new_flat_types =
     (case deref (project_objs s) project of
        None \<Rightarrow> Inr (NoObject, s)
      | Some p \<Rightarrow>
          if manager p \<noteq> Some self then Inr (AuthorizationDenied, s)
          else
            (let p1 = (case new_name of
                         None \<Rightarrow> p
                       | Some n \<Rightarrow> if n \<noteq> [] then p\<lparr>projectName := n\<rparr> else p);
                 p2 = (case new_neighborhood of
                         None \<Rightarrow> p1
                       | Some n \<Rightarrow> if n \<noteq> [] then p1\<lparr>neighborhood := n\<rparr> else p1);
                 p3 = (case new_flat_types of
                         None \<Rightarrow> p2
                       | Some f \<Rightarrow> if f \<noteq> Map.empty then p2\<lparr>flatTypes := f\<rparr> else p2)
             in Inr (Done, s\<lparr>project_objs := (project_objs s)[project := p3]\<rparr>)))"

text \<open>\<^verbatim>\<open>HDBManager.toggleProjectVisibility\<close>.\<close>

definition toggleProjectVisibility :: "store \<Rightarrow> nat \<Rightarrow> nat \<Rightarrow> bool \<Rightarrow> outcome" where
  "toggleProjectVisibility s self project isVisible =
     (case deref (project_objs s) project of
        None \<Rightarrow> Inr (NoObject, s)
      | Some p \<Rightarrow>
          if manager p \<noteq> Some self then Inr (AuthorizationDenied, s)
          else Inr (Done, s\<lparr>project_objs := (project_objs s)
                 [project := p\<lparr>visibility := isVisible\<rparr>]\<rparr>))"

text \<open>
  \<^verbatim>\<open>HDBManager.approveOrRejectApplication\<close>. The lookup of line 316 raises \<^verbatim>\<open>KeyError\<close>
  for a flat type the project does not have.
\<close>

definition approveOrRejectApplication :: "store \<Rightarrow> nat \<Rightarrow> nat \<Rightarrow> bool \<Rightarrow> outcome" where
  "approveOrRejectApplication s self application decision =
     (case deref (application_objs s) application of
        None \<Rightarrow> Inr (NoObject, s)
      | Some app \<Rightarrow>
     (case deref (project_objs s) (BTOProject app) of
        None \<Rightarrow> Inr (NoObject, s)
      | Some p \<Rightarrow>
          if manager p \<noteq> Some self then Inr (AuthorizationDenied, s)
          else if applicationStatus app \<noteq> ''Pending'' then Inr (InvalidStateTransition, s)
          else if decision then
            (case flatTypes p (chosen_flat_type app) of
               None \<Rightarrow> Inl KeyError
             | Some info \<Rightarrow>
                 if units info > 0 then Inr (Done, updateStatus s application ''Successful'')
                 else Inr (UnitsExhausted, s))
          else Inr (Done, updateStatus s application ''Unsuccessful'')))"

text \<open>\<^verbatim>\<open>HDBManager.approveOrRejectWithdrawal\<close>.\<close>

definition approveOrRejectWithdrawal :: "store \<Rightarrow> nat \<Rightarrow> nat \<Rightarrow> bool \<Rightarrow> outcome" where
  "approveOrRejectWithdrawal s self application decision =
     (case deref (application_objs s) application of
        None \<Rightarrow> Inr (NoObject, s)
      | Some app \<Rightarrow>
     (case deref (project_objs s) (BTOProject app) of
        None \<Rightarrow> Inr (NoObject, s)
      | Some p \<Rightarrow>
          if manager p \<noteq> Some self then Inr (AuthorizationDenied, s)
          else if \<not> requested_withdrawal app then Inr (NoWithdrawalRequested, s)
          else if decision then
            (if applicationStatus app \<in> set [''Pending'', ''Successful'']
             then Inr (Done, set_requested_withdrawal
                               (updateStatus s application ''Unsuccessful'') application False)
             else Inr (CannotWithdraw, s))
          else Inr (Done, set_requested_withdrawal s application False)))"

text \<open>\<^verbatim>\<open>HDBManager.approveOrRejectHDBOfficerRegistration\<close>.\<close>

definition approveOrRejectHDBOfficerRegistration ::
  "store \<Rightarrow> nat \<Rightarrow> nat \<Rightarrow> bool \<Rightarrow> outcome" where
  "approveOrRejectHDBOfficerRegistration s self officer decision =
     (case deref (officer_objs s) officer of
        None \<Rightarrow> Inr (NoObject, s)
      | Some off \<Rightarrow>
     (case registered_project off of
        None \<Rightarrow> Inr (NoRegistration, s)
      | Some project \<Rightarrow>
     (case deref (project_objs s) project of
        None \<Rightarrow> Inr (NoObject, s)
      | Some p \<Rightarrow>
          if manager p \<noteq> Some self then Inr (AuthorizationDenied, s)
          else if registration_status off \<noteq> Some ''Pending'' then Inr (InvalidStateTransition, s)
          else if decision then
            (if int (length (officers p)) \<ge> officerSlot p then Inr (SlotExhausted, s)
             else Inr (Done,
                    s\<lparr>project_objs := (project_objs s)
                        [project := p\<lparr>officers := officers p @ [officer]\<rparr>],
                      officer_objs := (officer_objs s)
                        [officer := off\<lparr>handling_project := Some project,
                                       registration_status := Some ''Approved''\<rparr>]\<rparr>))
          else Inr (Done, s\<lparr>officer_objs := (officer_objs s)
                 [officer := off\<lparr>registration_status := Some ''Rejected''\<rparr>]\<rparr>))))"

section \<open>The session\<close>

text \<open>
  The state-changing choices of the menus of \<^verbatim>\<open>main\<close>, with the arguments \<^verbatim>\<open>main\<close> passes.
  The checks \<^verbatim>\<open>main\<close> makes before a call (project found and visible, application window,
  the entry picked from a filtered list) only restrict when a method is called; a request
  here may call it with any arguments. \<^verbatim>\<open>main\<close> passes \<^verbatim>\<open>None\<close> for the new flat types of
  \<^verbatim>\<open>editBTOProject\<close> (lines 889 to 892).
\<close>

datatype request =
    Apply person nat string
  | RequestWithdrawal person "int option"
  | RegisterToProject nat nat
  | UpdateFlatAvailability nat nat string int
  | CreateBTOProject nat string string "string \<rightharpoonup> flat_info" "date option" "date option" int
  | EditBTOProject nat nat "string option" "string option"
  | ToggleProjectVisibility nat nat bool
  | ApproveOrRejectApplication nat nat bool
  | ApproveOrRejectWithdrawal nat nat bool
  | ApproveOrRejectHDBOfficerRegistration nat nat bool

text \<open>
  A session call of a method outside a \<^verbatim>\<open>try\<close>: an exception ends the program. The three
  approval menus wrap the call in \<^verbatim>\<open>try ... except:\<close>, which prints "Invalid input." and
  goes on; every exception of the model is raised before the method changes anything.
\<close>

definition uncaught :: "outcome \<Rightarrow> pyexn + store" where
  "uncaught r = (case r of Inl e \<Rightarrow> Inl e | Inr (msg, s') \<Rightarrow> Inr s')"

definition caught :: "store \<Rightarrow> outcome \<Rightarrow> pyexn + store" where
  "caught s r = (case r of Inl e \<Rightarrow> Inr s | Inr (msg, s') \<Rightarrow> Inr s')"

fun step :: "store \<Rightarrow> request \<Rightarrow> pyexn + store" where
  "step s (Apply who project flat_type) = uncaught (applyForProject s who project flat_type)"
| "step s (RequestWithdrawal who choice) = uncaught (requestWithdrawal s who choice)"
| "step s (RegisterToProject off project) = uncaught (registerToProject s off project)"
| "step s (UpdateFlatAvailability off project flat_type nb) =
     uncaught (updateFlatAvailability s off project flat_type nb)"
| "step s (CreateBTOProject m pname nbhd ft od cd slot) =
     Inr (createBTOProject s m pname nbhd ft od cd slot)"
| "step s (EditBTOProject m project new_name new_nbhd) =
     uncaught (editBTOProject s m project new_name new_nbhd None)"
| "step s (ToggleProjectVisibility m project vis) =
     uncaught (toggleProjectVisibility s m project vis)"
| "step s (ApproveOrRejectApplication m a decision) =
     caught s (approveOrRejectApplication s m a decision)"
| "step s (ApproveOrRejectWithdrawal m a decision) =
     caught s (approveOrRejectWithdrawal s m a decision)"
| "step s (ApproveOrRejectHDBOfficerRegistration m off decision) =
     caught s (approveOrRejectHDBOfficerRegistration s m off decision)"

text \<open>A sequence of requests, stopping at the exception that ends the program.\<close>

fun run :: "store \<Rightarrow> request list \<Rightarrow> pyexn + store" where
  "run s [] = Inr s"
| "run s (r # rs) = (case step s r of Inl e \<Rightarrow> Inl e | Inr s' \<Rightarrow> run s' rs)"

section \<open>Properties of stores\<close>

text \<open>The status changes the specification allows.\<close>

definition transitions :: "(string \<times> string) list" where
  "transitions =
     [(''Pending'', ''Successful''), (''Pending'', ''Unsuccessful''),
      (''Successful'', ''Unsuccessful''), (''Successful'', ''Booked'')]"

text \<open>The status changes the operations make.\<close>

definition moves :: "(string \<times> string) list" where
  "moves =
     [(''Pending'', ''Successful''), (''Pending'', ''Unsuccessful''),
      (''Successful'', ''Unsuccessful'')]"

text \<open>
  The application objects before and after an operation: every object stays, for the same
  project and flat type, with the same status or one reached by such a change, and every
  new object is Pending.
\<close>

definition status_moves :: "Application list \<Rightarrow> Application list \<Rightarrow> bool" where
  "status_moves xs ys \<longleftrightarrow>
     length xs \<le> length ys \<and>
     (\<forall>a < length xs.
        BTOProject (ys ! a) = BTOProject (xs ! a) \<and>
        chosen_flat_type (ys ! a) = chosen_flat_type (xs ! a) \<and>
        (applicationStatus (ys ! a) = applicationStatus (xs ! a) \<or>
         (applicationStatus (xs ! a), applicationStatus (ys ! a)) \<in> set moves)) \<and>
     (\<forall>a. length xs \<le> a \<longrightarrow> a < length ys \<longrightarrow> applicationStatus (ys ! a) = ''Pending'')"

text \<open>
  The project objects before and after an operation: every project stays, with the same flat
  type keys and the same officer slots, and with the same officers or with one more where
  there was room.
\<close>

definition projects_kept :: "BTOProject list \<Rightarrow> BTOProject list \<Rightarrow> bool" where
  "projects_kept ps qs \<longleftrightarrow>
     length ps \<le> length qs \<and>
     (\<forall>i < length ps.
        dom (flatTypes (qs ! i)) = dom (flatTypes (ps ! i)) \<and>
        officerSlot (qs ! i) = officerSlot (ps ! i) \<and>
        (officers (qs ! i) = officers (ps ! i) \<or>
         int (length (officers (ps ! i))) < officerSlot (ps ! i) \<and>
         length (officers (qs ! i)) = Suc (length (officers (ps ! i)))))"

text \<open>Every project stays with the same unit counts and prices.\<close>

definition units_kept :: "BTOProject list \<Rightarrow> BTOProject list \<Rightarrow> bool" where
  "units_kept ps qs \<longleftrightarrow>
     length ps \<le> length qs \<and> (\<forall>i < length ps. flatTypes (qs ! i) = flatTypes (ps ! i))"

text \<open>Every application names a project of the store that has its chosen flat type.\<close>

definition has_flat_types :: "store \<Rightarrow> bool" where
  "has_flat_types s \<longleftrightarrow>
     (\<forall>a < length (application_objs s).
        BTOProject (application_objs s ! a) < length (project_objs s) \<and>
        chosen_flat_type (application_objs s ! a) \<in>
          dom (flatTypes (project_objs s ! BTOProject (application_objs s ! a))))"

text \<open>What every operation keeps, from the store before to the store after.\<close>

definition frame :: "store \<Rightarrow> store \<Rightarrow> bool" where
  "frame s s' \<longleftrightarrow>
     status_moves (application_objs s) (application_objs s') \<and>
     projects_kept (project_objs s) (project_objs s') \<and>
     (has_flat_types s \<longrightarrow> has_flat_types s')"

text \<open>No project has more officers than officer slots.\<close>

definition slots_respected :: "store \<Rightarrow> bool" where
  "slots_respected s \<longleftrightarrow>
     (\<forall>i < length (project_objs s).
        int (length (officers (project_objs s ! i))) \<le> officerSlot (project_objs s ! i))"

text \<open>A request that makes a project asks for no fewer than zero officer slots.\<close>

fun slot_not_negative :: "request \<Rightarrow> bool" where
  "slot_not_negative (CreateBTOProject m pname nbhd ft od cd slot) = (0 \<le> slot)"
| "slot_not_negative r = True"

section \<open>A small estate\<close>

text \<open>
  Concrete objects for evaluating the operations: the project Acacia with one 2-Room unit
  and no 3-Room unit, owned by manager 0, with one officer slot; four applicants and two
  officers.
\<close>

definition acacia :: BTOProject where
  "acacia = BTOProject_init 1 ''Acacia'' ''Yishun''
     [''2-Room'' \<mapsto> \<lparr>units = 1, price = 100\<rparr>, ''3-Room'' \<mapsto> \<lparr>units = 0, price = 200\<rparr>]
     None None (Some 0) 1"

definition alice :: Applicant where
  "alice = \<lparr>userID = ''S1'', age = 36, marital_status = ''Single'', name = ''Alice'',
            applications = []\<rparr>"

definition bob :: Applicant where
  "bob = \<lparr>userID = ''S2'', age = 20, marital_status = ''Married'', name = ''Bob'',
          applications = []\<rparr>"

definition carol :: Applicant where
  "carol = \<lparr>userID = ''S3'', age = 40, marital_status = ''Married'', name = ''Carol'',
            applications = []\<rparr>"

definition dave :: Applicant where
  "dave = \<lparr>userID = ''S4'', age = 30, marital_status = ''single'', name = ''Dave'',
           applications = []\<rparr>"

definition olive :: HDBOfficer where
  "olive = \<lparr>userID = ''T1'', age = 30, marital_status = ''Married'', name = ''Olive'',
            applications = [], handling_project = None, registration_status = None,
            registered_project = None\<rparr>"

definition oscar :: HDBOfficer where
  "oscar = \<lparr>userID = ''T2'', age = 41, marital_status = ''Single'', name = ''Oscar'',
            applications = [], handling_project = None, registration_status = None,
            registered_project = None\<rparr>"

definition estate :: store where
  "estate = \<lparr>applicant_objs = [alice, bob, carol, dave], officer_objs = [olive, oscar],
             project_objs = [acacia], application_objs = []\<rparr>"

text \<open>The application Alice makes for a 2-Room flat of Acacia, and the estate holding it.\<close>

definition alice_app :: Application where
  "alice_app = \<lparr>applicant = AnApplicant 0, BTOProject = 0, applicationStatus = ''Pending'',
                chosen_flat_type = ''2-Room'', requested_withdrawal = False\<rparr>"

definition estate_applied :: "Application \<Rightarrow> store" where
  "estate_applied app =
     \<lparr>applicant_objs = [alice\<lparr>applications := [0]\<rparr>, bob, carol, dave],
      officer_objs = [olive, oscar], project_objs = [acacia], application_objs = [app]\<rparr>"

text \<open>
  The estate once Alice's application is Successful and Olive is the approved officer of
  Acacia.
\<close>

definition estate_successful :: store where
  "estate_successful =
     \<lparr>applicant_objs = [alice\<lparr>applications := [0]\<rparr>, bob, carol, dave],
      officer_objs = [olive\<lparr>handling_project := Some 0, registration_status := Some ''Approved'',
                            registered_project := Some 0\<rparr>, oscar],
      project_objs = [acacia\<lparr>officers := [0]\<rparr>],
      application_objs = [alice_app\<lparr>applicationStatus := ''Successful''\<rparr>]\<rparr>"

text \<open>The estate once Olive and Oscar have registered for Acacia.\<close>

definition estate_registered :: store where
  "estate_registered =
     \<lparr>applicant_objs = [alice, bob, carol, dave],
      officer_objs = [olive\<lparr>registration_status := Some ''Pending'', registered_project := Some 0\<rparr>,
                      oscar\<lparr>registration_status := Some ''Pending'', registered_project := Some 0\<rparr>],
      project_objs = [acacia], application_objs = []\<rparr>"

text \<open>The estate once Olive's registration is approved and Oscar's is still pending.\<close>

definition estate_staffed :: store where
  "estate_staffed =
     \<lparr>applicant_objs = [alice, bob, carol, dave],
      officer_objs = [olive\<lparr>handling_project := Some 0, registration_status := Some ''Approved'',
                            registered_project := Some 0\<rparr>,
                      oscar\<lparr>registration_status := Some ''Pending'', registered_project := Some 0\<rparr>],
      project_objs = [acacia\<lparr>officers := [0]\<rparr>], application_objs = []\<rparr>"

section \<open>Unit inventory\<close>

text \<open>
  Claim C7. \<^verbatim>\<open>reduceUnits\<close> subtracts the count from the flat type's unit count and clamps
  the result at zero: the new count is the larger of zero and the difference, whatever the
  count asked for, so it is never negative, in particular from a non-negative starting
  count. The price, the other flat types and the other fields of the project are untouched.
  For a flat type that is not a key of the mapping the project is unchanged.
\<close>

theorem reduceUnits_clamps:
  "(flatTypes p ft = Some info \<longrightarrow>
      flatTypes (reduceUnits p ft n) ft = Some (info\<lparr>units := max 0 (units info - n)\<rparr>) \<and>
      (\<forall>t. t \<noteq> ft \<longrightarrow> flatTypes (reduceUnits p ft n) t = flatTypes p t) \<and>
      reduceUnits p ft n = p\<lparr>flatTypes := flatTypes (reduceUnits p ft n)\<rparr>) \<and>
   (flatTypes p ft = Some info \<and> 0 \<le> units info \<longrightarrow>
      (\<exists>i. flatTypes (reduceUnits p ft n) ft = Some i \<and> 0 \<le> units i)) \<and>
   (ft \<notin> dom (flatTypes p) \<longrightarrow> reduceUnits p ft n = p)"
  by (auto simp: reduceUnits_def Let_def max_def domIff)

theorem reduceUnits_clamps_witness:
  "flatTypes (reduceUnits acacia ''2-Room'' 5) ''2-Room'' = Some \<lparr>units = 0, price = 100\<rparr> \<and>
   flatTypes (reduceUnits acacia ''2-Room'' 1) ''2-Room'' = Some \<lparr>units = 0, price = 100\<rparr> \<and>
   flatTypes (reduceUnits acacia ''2-Room'' (-2)) ''2-Room'' = Some \<lparr>units = 3, price = 100\<rparr> \<and>
   flatTypes (reduceUnits acacia ''2-Room'' 5) ''3-Room'' = Some \<lparr>units = 0, price = 200\<rparr> \<and>
   reduceUnits acacia ''4-Room'' 5 = acacia"
  using reduceUnits_clamps [of acacia "''2-Room''" "\<lparr>units = 1, price = 100\<rparr>" 5]
    reduceUnits_clamps [of acacia "''2-Room''" "\<lparr>units = 1, price = 100\<rparr>" 1]
    reduceUnits_clamps [of acacia "''2-Room''" "\<lparr>units = 1, price = 100\<rparr>" "-2"]
    reduceUnits_clamps [of acacia "''4-Room''" _ 5]
  by (simp add: acacia_def BTOProject_init_def)

section \<open>Eligibility\<close>

lemma eligibility_iff: "eligibility u t = None \<longleftrightarrow> t \<in> eligibleFlatTypes u"
  by (auto simp: eligibleFlatTypes_def can_apply_types_def eligibility_def)

lemma eligibility_denied: "t \<notin> eligibleFlatTypes u \<Longrightarrow> eligibility u t = Some EligibilityDenied"
  by (auto simp: eligibleFlatTypes_def can_apply_types_def eligibility_def split: if_splits)

lemma lower_examples:
  "lower ''Single'' = ''single''" "lower ''single'' = ''single''"
  "lower ''Married'' = ''married''"
  by (simp_all add: lower_def lower_char_def)

text \<open>
  Claim C3. The flat types a person may apply for are: none for a single person younger
  than 35, exactly 2-Room for a single person of 35 or more, none for a person who is not
  single and younger than 21, exactly 2-Room and 3-Room for a person who is not single and
  21 or more. A person is single when the marital status, in lower case, is "single". The
  set is the one \<^verbatim>\<open>viewProjects\<close> uses, and the checks of \<^verbatim>\<open>applyForProject\<close> let a flat
  type through exactly when it belongs to it.
\<close>

theorem eligibleFlatTypes_cases:
  "(lower (marital_status u) = ''single'' \<and> age u < 35 \<longrightarrow> eligibleFlatTypes u = {}) \<and>
   (lower (marital_status u) = ''single'' \<and> 35 \<le> age u \<longrightarrow> eligibleFlatTypes u = {''2-Room''}) \<and>
   (lower (marital_status u) \<noteq> ''single'' \<and> age u < 21 \<longrightarrow> eligibleFlatTypes u = {}) \<and>
   (lower (marital_status u) \<noteq> ''single'' \<and> 21 \<le> age u \<longrightarrow>
      eligibleFlatTypes u = {''2-Room'', ''3-Room''}) \<and>
   (\<forall>t. eligibility u t = None \<longleftrightarrow> t \<in> eligibleFlatTypes u)"
  by (auto simp: eligibleFlatTypes_def can_apply_types_def eligibility_def)

theorem eligibleFlatTypes_cases_witness:
  "eligibleFlatTypes dave = {} \<and> eligibleFlatTypes alice = {''2-Room''} \<and>
   eligibleFlatTypes bob = {} \<and> eligibleFlatTypes carol = {''2-Room'', ''3-Room''} \<and>
   eligibility alice ''2-Room'' = None \<and> eligibility alice ''3-Room'' \<noteq> None"
  using eligibleFlatTypes_cases [of dave] eligibleFlatTypes_cases [of alice]
    eligibleFlatTypes_cases [of bob] eligibleFlatTypes_cases [of carol]
  by (simp add: alice_def bob_def carol_def dave_def lower_examples)

section \<open>Store lemmas\<close>

lemma deref_Some: "deref xs i = Some x \<longleftrightarrow> i < length xs \<and> xs ! i = x"
  by (auto simp: deref_def)

lemma deref_update_same: "deref xs a = Some x \<Longrightarrow> deref (xs[a := y]) a = Some y"
  by (auto simp: deref_def split: if_splits)

lemma updateStatus_eq:
  "deref (application_objs s) a = Some app \<Longrightarrow>
   updateStatus s a x =
     s\<lparr>application_objs := (application_objs s)[a := app\<lparr>applicationStatus := x\<rparr>]\<rparr>"
  by (auto simp: updateStatus_def deref_def split: if_splits)

lemma set_requested_withdrawal_eq:
  "deref (application_objs s) a = Some app \<Longrightarrow>
   set_requested_withdrawal s a b =
     s\<lparr>application_objs := (application_objs s)[a := app\<lparr>requested_withdrawal := b\<rparr>]\<rparr>"
  by (auto simp: set_requested_withdrawal_def deref_def split: if_splits)

lemma active_app_nonempty:
  "active_app s u \<noteq> [] \<longleftrightarrow>
     (\<exists>a \<in> set (applications u). \<exists>app. deref (application_objs s) a = Some app \<and>
         applicationStatus app \<in> {''Pending'', ''Successful''})"
  by (auto simp: active_app_def filter_empty_conv split: option.splits)

lemma the_applicant_append:
  "the_applicant s who = Some u \<Longrightarrow>
   the_applicant (append_application (s\<lparr>application_objs := xs\<rparr>) who a) who =
     Some (u\<lparr>applications := applications u @ [a]\<rparr>)"
  by (cases who) (auto simp: the_applicant_def append_application_def deref_def
      Applicant.truncate_def split: if_splits)

lemma append_application_frame:
  "application_objs (append_application s who a) = application_objs s"
  "project_objs (append_application s who a) = project_objs s"
  by (cases who; simp add: append_application_def)+

lemma estate_objects:
  "the_applicant estate (AnApplicant 0) = Some alice"
  "the_applicant estate (AnApplicant 1) = Some bob"
  "the_applicant estate (AnApplicant 2) = Some carol"
  "the_applicant (estate_applied app) (AnApplicant 0) = Some (alice\<lparr>applications := [0]\<rparr>)"
  "deref (project_objs estate) 0 = Some acacia"
  "deref (project_objs (estate_applied app)) 0 = Some acacia"
  "deref (application_objs (estate_applied app)) 0 = Some app"
  by (simp_all add: the_applicant_def deref_def estate_def estate_applied_def)

section \<open>Application lifecycle\<close>

text \<open>
  Claim C1. For an application and its project: a manager who does not own the project is
  refused, and so is any decision on an application whose status is not Pending; in both
  cases nothing changes. For the owning manager and a Pending application, approving with
  more than zero units left of the chosen flat type sets the status to Successful,
  approving with zero units left (or fewer) fails with UnitsExhausted and changes nothing,
  and rejecting sets the status to Unsuccessful whatever the units are.
\<close>

theorem approveOrRejectApplication_cases:
  assumes "deref (application_objs s) a = Some app"
    and "deref (project_objs s) (BTOProject app) = Some p"
  shows
  "(manager p \<noteq> Some m \<longrightarrow>
      approveOrRejectApplication s m a d = Inr (AuthorizationDenied, s)) \<and>
   (manager p = Some m \<and> applicationStatus app \<noteq> ''Pending'' \<longrightarrow>
      approveOrRejectApplication s m a d = Inr (InvalidStateTransition, s)) \<and>
   (manager p = Some m \<and> applicationStatus app = ''Pending'' \<and>
    flatTypes p (chosen_flat_type app) = Some info \<and> 0 < units info \<longrightarrow>
      approveOrRejectApplication s m a True =
        Inr (Done, s\<lparr>application_objs :=
               (application_objs s)[a := app\<lparr>applicationStatus := ''Successful''\<rparr>]\<rparr>)) \<and>
   (manager p = Some m \<and> applicationStatus app = ''Pending'' \<and>
    flatTypes p (chosen_flat_type app) = Some info \<and> units info \<le> 0 \<longrightarrow>
      approveOrRejectApplication s m a True = Inr (UnitsExhausted, s)) \<and>
   (manager p = Some m \<and> applicationStatus app = ''Pending'' \<longrightarrow>
      approveOrRejectApplication s m a False =
        Inr (Done, s\<lparr>application_objs :=
               (application_objs s)[a := app\<lparr>applicationStatus := ''Unsuccessful''\<rparr>]\<rparr>))"
  using assms by (simp add: approveOrRejectApplication_def updateStatus_eq)

theorem approveOrRejectApplication_cases_witness:
  "approveOrRejectApplication (estate_applied alice_app) 7 0 True =
     Inr (AuthorizationDenied, estate_applied alice_app) \<and>
   approveOrRejectApplication (estate_applied (alice_app\<lparr>applicationStatus := ''Booked''\<rparr>)) 0 0 False =
     Inr (InvalidStateTransition, estate_applied (alice_app\<lparr>applicationStatus := ''Booked''\<rparr>)) \<and>
   approveOrRejectApplication (estate_applied alice_app) 0 0 True =
     Inr (Done, estate_applied (alice_app\<lparr>applicationStatus := ''Successful''\<rparr>)) \<and>
   approveOrRejectApplication (estate_applied (alice_app\<lparr>chosen_flat_type := ''3-Room''\<rparr>)) 0 0 True =
     Inr (UnitsExhausted, estate_applied (alice_app\<lparr>chosen_flat_type := ''3-Room''\<rparr>)) \<and>
   approveOrRejectApplication (estate_applied alice_app) 0 0 False =
     Inr (Done, estate_applied (alice_app\<lparr>applicationStatus := ''Unsuccessful''\<rparr>))"
proof -
  have p: "deref (project_objs (estate_applied app)) (BTOProject app) = Some acacia"
    if "BTOProject app = 0" for app
    using that by (simp add: estate_objects)
  note c = approveOrRejectApplication_cases [OF estate_objects(7) p]
  show ?thesis
    using c [where app = alice_app and m = 7 and d = True]
      c [where app = "alice_app\<lparr>applicationStatus := ''Booked''\<rparr>" and m = 0 and d = False]
      c [where app = alice_app and m = 0 and info = "\<lparr>units = 1, price = 100\<rparr>"]
      c [where app = "alice_app\<lparr>chosen_flat_type := ''3-Room''\<rparr>" and m = 0
          and info = "\<lparr>units = 0, price = 200\<rparr>"]
    by (simp add: alice_app_def acacia_def BTOProject_init_def estate_applied_def)
qed

text \<open>
  Claim C5. For an application and its project: a manager who does not own the project is
  refused, and a decision on an application whose withdrawal flag is false is refused; in
  both cases nothing changes. For the owning manager and a raised flag, approving a Pending
  or Successful application sets the status to Unsuccessful and clears the flag, approving
  in any other status fails and changes nothing, and rejecting clears the flag and leaves
  the status as it is.
\<close>

theorem approveOrRejectWithdrawal_cases:
  assumes "deref (application_objs s) a = Some app"
    and "deref (project_objs s) (BTOProject app) = Some p"
  shows
  "(manager p \<noteq> Some m \<longrightarrow>
      approveOrRejectWithdrawal s m a d = Inr (AuthorizationDenied, s)) \<and>
   (manager p = Some m \<and> \<not> requested_withdrawal app \<longrightarrow>
      approveOrRejectWithdrawal s m a d = Inr (NoWithdrawalRequested, s)) \<and>
   (manager p = Some m \<and> requested_withdrawal app \<and>
    applicationStatus app \<in> {''Pending'', ''Successful''} \<longrightarrow>
      approveOrRejectWithdrawal s m a True =
        Inr (Done, s\<lparr>application_objs := (application_objs s)
               [a := app\<lparr>applicationStatus := ''Unsuccessful'', requested_withdrawal := False\<rparr>]\<rparr>)) \<and>
   (manager p = Some m \<and> requested_withdrawal app \<and>
    applicationStatus app \<notin> {''Pending'', ''Successful''} \<longrightarrow>
      approveOrRejectWithdrawal s m a True = Inr (CannotWithdraw, s)) \<and>
   (manager p = Some m \<and> requested_withdrawal app \<longrightarrow>
      approveOrRejectWithdrawal s m a False =
        Inr (Done, s\<lparr>application_objs := (application_objs s)
               [a := app\<lparr>requested_withdrawal := False\<rparr>]\<rparr>))"
proof -
  have u: "updateStatus s a ''Unsuccessful'' =
      s\<lparr>application_objs := (application_objs s)[a := app\<lparr>applicationStatus := ''Unsuccessful''\<rparr>]\<rparr>"
    using assms(1) by (rule updateStatus_eq)
  have d: "deref (application_objs (updateStatus s a ''Unsuccessful'')) a =
      Some (app\<lparr>applicationStatus := ''Unsuccessful''\<rparr>)"
    using assms(1) by (simp add: u deref_update_same)
  have w: "set_requested_withdrawal (updateStatus s a ''Unsuccessful'') a False =
      s\<lparr>application_objs := (application_objs s)
         [a := app\<lparr>applicationStatus := ''Unsuccessful'', requested_withdrawal := False\<rparr>]\<rparr>"
    by (simp add: set_requested_withdrawal_eq [OF d]) (simp add: u)
  show ?thesis
    using assms by (simp add: approveOrRejectWithdrawal_def w set_requested_withdrawal_eq)
qed

theorem approveOrRejectWithdrawal_cases_witness:
  "approveOrRejectWithdrawal (estate_applied (alice_app\<lparr>requested_withdrawal := True\<rparr>)) 7 0 True =
     Inr (AuthorizationDenied, estate_applied (alice_app\<lparr>requested_withdrawal := True\<rparr>)) \<and>
   approveOrRejectWithdrawal (estate_applied alice_app) 0 0 True =
     Inr (NoWithdrawalRequested, estate_applied alice_app) \<and>
   approveOrRejectWithdrawal
       (estate_applied (alice_app\<lparr>applicationStatus := ''Successful'', requested_withdrawal := True\<rparr>))
       0 0 True =
     Inr (Done, estate_applied
       (alice_app\<lparr>applicationStatus := ''Unsuccessful'', requested_withdrawal := False\<rparr>)) \<and>
   approveOrRejectWithdrawal
       (estate_applied (alice_app\<lparr>applicationStatus := ''Unsuccessful'', requested_withdrawal := True\<rparr>))
       0 0 True =
     Inr (CannotWithdraw, estate_applied
       (alice_app\<lparr>applicationStatus := ''Unsuccessful'', requested_withdrawal := True\<rparr>)) \<and>
   approveOrRejectWithdrawal
       (estate_applied (alice_app\<lparr>applicationStatus := ''Successful'', requested_withdrawal := True\<rparr>))
       0 0 False =
     Inr (Done, estate_applied
       (alice_app\<lparr>applicationStatus := ''Successful'', requested_withdrawal := False\<rparr>))"
proof -
  have p: "deref (project_objs (estate_applied app)) (BTOProject app) = Some acacia"
    if "BTOProject app = 0" for app
    using that by (simp add: estate_objects)
  note c = approveOrRejectWithdrawal_cases [OF estate_objects(7) p]
  show ?thesis
    using c [where app = "alice_app\<lparr>requested_withdrawal := True\<rparr>" and m = 7 and d = True]
      c [where app = alice_app and m = 0 and d = True]
      c [where app = "alice_app\<lparr>applicationStatus := ''Successful'', requested_withdrawal := True\<rparr>"
          and m = 0]
      c [where app = "alice_app\<lparr>applicationStatus := ''Unsuccessful'', requested_withdrawal := True\<rparr>"
          and m = 0]
    by (simp add: alice_app_def acacia_def BTOProject_init_def estate_applied_def)
qed

text \<open>
  Claim C2. For a requester and a project: applying fails with DuplicateActiveApplication
  when the requester holds an application whose status is Pending or Successful; otherwise
  it fails with EligibilityDenied when the flat type is not among the requester's eligible
  flat types; otherwise it fails with UnitsExhausted when the project has zero units (or
  fewer) of that flat type. Whenever the call returns a failure the store is unchanged, so no
  application object exists that did not before. With more than zero units the call
  succeeds, and a success adds exactly one application object: the requester's, for this
  project and flat type, with status Pending and withdrawal flag false.
\<close>

theorem applyForProject_cases:
  assumes "the_applicant s who = Some u"
    and "deref (project_objs s) project = Some p"
  shows
  "((\<exists>a \<in> set (applications u). \<exists>app. deref (application_objs s) a = Some app \<and>
       applicationStatus app \<in> {''Pending'', ''Successful''}) \<longrightarrow>
      applyForProject s who project ft = Inr (DuplicateActiveApplication, s)) \<and>
   (active_app s u = [] \<and> ft \<notin> eligibleFlatTypes u \<longrightarrow>
      applyForProject s who project ft = Inr (EligibilityDenied, s)) \<and>
   (active_app s u = [] \<and> ft \<in> eligibleFlatTypes u \<and>
    flatTypes p ft = Some info \<and> units info \<le> 0 \<longrightarrow>
      applyForProject s who project ft = Inr (UnitsExhausted, s)) \<and>
   (\<forall>r s'. applyForProject s who project ft = Inr (r, s') \<and> r \<noteq> Done \<longrightarrow> s' = s) \<and>
   (active_app s u = [] \<and> ft \<in> eligibleFlatTypes u \<and>
    flatTypes p ft = Some info \<and> 0 < units info \<longrightarrow>
      (\<exists>s'. applyForProject s who project ft = Inr (Done, s'))) \<and>
   (\<forall>s'. applyForProject s who project ft = Inr (Done, s') \<longrightarrow>
      application_objs s' = application_objs s @
        [\<lparr>applicant = who, BTOProject = project, applicationStatus = ''Pending'',
          chosen_flat_type = ft, requested_withdrawal = False\<rparr>] \<and>
      the_applicant s' who =
        Some (u\<lparr>applications := applications u @ [length (application_objs s)]\<rparr>) \<and>
      project_objs s' = project_objs s)"
proof -
  have dup: "(\<exists>a \<in> set (applications u). \<exists>app. deref (application_objs s) a = Some app \<and>
       applicationStatus app \<in> {''Pending'', ''Successful''}) \<longleftrightarrow> active_app s u \<noteq> []"
    by (simp only: active_app_nonempty)
  show ?thesis
    unfolding dup
    using assms eligibility_iff [of u ft] eligibility_denied [of ft u]
    by (cases "active_app s u = []"; cases "ft \<in> eligibleFlatTypes u"; cases "flatTypes p ft")
       (auto simp: applyForProject_def Let_def
        Application_init_def the_applicant_append append_application_frame)
qed

theorem applyForProject_cases_witness:
  "applyForProject (estate_applied alice_app) (AnApplicant 0) 0 ''2-Room'' =
     Inr (DuplicateActiveApplication, estate_applied alice_app) \<and>
   applyForProject estate (AnApplicant 1) 0 ''2-Room'' = Inr (EligibilityDenied, estate) \<and>
   applyForProject estate (AnApplicant 0) 0 ''3-Room'' = Inr (EligibilityDenied, estate) \<and>
   applyForProject estate (AnApplicant 2) 0 ''3-Room'' = Inr (UnitsExhausted, estate) \<and>
   applyForProject estate (AnApplicant 0) 0 ''2-Room'' = Inr (Done, estate_applied alice_app)"
proof -
  have n: "applications alice = []" "applications bob = []" "applications carol = []"
    by (simp_all add: alice_def bob_def carol_def)
  have a: "active_app estate alice = []" "active_app estate bob = []"
    "active_app estate carol = []"
    by (simp_all add: active_app_def n)
  have e: "eligibleFlatTypes alice = {''2-Room''}" "eligibleFlatTypes bob = {}"
    "eligibleFlatTypes carol = {''2-Room'', ''3-Room''}"
    by (simp_all add: eligibleFlatTypes_def can_apply_types_def alice_def bob_def carol_def
        lower_examples)
  have f: "flatTypes acacia ''2-Room'' = Some \<lparr>units = 1, price = 100\<rparr>"
    "flatTypes acacia ''3-Room'' = Some \<lparr>units = 0, price = 200\<rparr>"
    by (simp_all add: acacia_def BTOProject_init_def)
  have h: "\<exists>a \<in> set (applications (alice\<lparr>applications := [0]\<rparr>)).
      \<exists>app. deref (application_objs (estate_applied alice_app)) a = Some app \<and>
        applicationStatus app \<in> {''Pending'', ''Successful''}"
    by (simp add: estate_objects alice_app_def)
  have 1: "applyForProject (estate_applied alice_app) (AnApplicant 0) 0 ''2-Room'' =
     Inr (DuplicateActiveApplication, estate_applied alice_app)"
    using applyForProject_cases [OF estate_objects(4) [of alice_app]
        estate_objects(6) [of alice_app], where ft = "''2-Room''"] h
    by blast
  have 2: "applyForProject estate (AnApplicant 1) 0 ''2-Room'' = Inr (EligibilityDenied, estate)"
    using applyForProject_cases [OF estate_objects(2) estate_objects(5), where ft = "''2-Room''"]
    by (simp add: a e)
  have 3: "applyForProject estate (AnApplicant 0) 0 ''3-Room'' = Inr (EligibilityDenied, estate)"
    using applyForProject_cases [OF estate_objects(1) estate_objects(5), where ft = "''3-Room''"]
    by (simp add: a e)
  have 4: "applyForProject estate (AnApplicant 2) 0 ''3-Room'' = Inr (UnitsExhausted, estate)"
    using applyForProject_cases [OF estate_objects(3) estate_objects(5),
        where ft = "''3-Room''" and info = "\<lparr>units = 0, price = 200\<rparr>"]
    by (simp add: a e f)
  have g: "append_application (estate\<lparr>application_objs := [alice_app]\<rparr>) (AnApplicant 0) 0 =
      estate_applied alice_app"
    by (simp add: append_application_def estate_def estate_applied_def n)
  have i: "Application_init (AnApplicant 0) 0 ''2-Room'' = alice_app"
    by (simp add: Application_init_def alice_app_def)
  have l: "application_objs estate = []"
    by (simp add: estate_def)
  have "eligibility alice ''2-Room'' = None"
    by (simp add: eligibility_iff e)
  then have 5: "applyForProject estate (AnApplicant 0) 0 ''2-Room'' =
      Inr (Done, estate_applied alice_app)"
    by (simp add: applyForProject_def estate_objects a f i l g Let_def)
  from 1 2 3 4 5 show ?thesis
    by (simp only: simp_thms)
qed

section \<open>What the operations keep\<close>

lemma status_moves_refl: "status_moves xs xs"
  by (auto simp: status_moves_def)

lemma projects_kept_refl: "projects_kept ps ps"
  by (simp add: projects_kept_def)

lemma units_kept_refl: "units_kept ps ps"
  by (simp add: units_kept_def)

lemma status_moves_update:
  assumes "a < length xs" "BTOProject y = BTOProject (xs ! a)"
    "chosen_flat_type y = chosen_flat_type (xs ! a)"
    "applicationStatus y = applicationStatus (xs ! a) \<or>
     (applicationStatus (xs ! a), applicationStatus y) \<in> set moves"
  shows "status_moves xs (xs[a := y])"
  using assms by (auto simp: status_moves_def nth_list_update)

lemma status_moves_append:
  "applicationStatus y = ''Pending'' \<Longrightarrow> status_moves xs (xs @ [y])"
  by (auto simp: status_moves_def nth_append less_Suc_eq)

lemma projects_kept_update:
  assumes "i < length ps" "dom (flatTypes q) = dom (flatTypes (ps ! i))"
    "officerSlot q = officerSlot (ps ! i)"
    "officers q = officers (ps ! i) \<or>
     int (length (officers (ps ! i))) < officerSlot (ps ! i) \<and>
     length (officers q) = Suc (length (officers (ps ! i)))"
  shows "projects_kept ps (ps[i := q])"
  using assms by (auto simp: projects_kept_def nth_list_update)

lemma projects_kept_append: "projects_kept ps (ps @ [q])"
  by (auto simp: projects_kept_def nth_append)

lemma units_kept_update:
  assumes "i < length ps" "flatTypes q = flatTypes (ps ! i)"
  shows "units_kept ps (ps[i := q])"
  using assms by (auto simp: units_kept_def nth_list_update)

lemma units_kept_append: "units_kept ps (ps @ [q])"
  by (auto simp: units_kept_def nth_append)

lemma has_flat_types_update_app:
  assumes "has_flat_types s" "a < length (application_objs s)"
    "BTOProject y = BTOProject (application_objs s ! a)"
    "chosen_flat_type y = chosen_flat_type (application_objs s ! a)"
    "project_objs s' = project_objs s" "application_objs s' = (application_objs s)[a := y]"
  shows "has_flat_types s'"
  using assms by (auto simp: has_flat_types_def nth_list_update)

lemma has_flat_types_append_app:
  assumes "has_flat_types s" "BTOProject y < length (project_objs s)"
    "chosen_flat_type y \<in> dom (flatTypes (project_objs s ! BTOProject y))"
    "project_objs s' = project_objs s" "application_objs s' = application_objs s @ [y]"
  shows "has_flat_types s'"
  using assms by (auto simp: has_flat_types_def nth_append less_Suc_eq)

lemma has_flat_types_update_project:
  assumes "has_flat_types s" "i < length (project_objs s)"
    "dom (flatTypes q) = dom (flatTypes (project_objs s ! i))"
    "project_objs s' = (project_objs s)[i := q]" "application_objs s' = application_objs s"
  shows "has_flat_types s'"
  using assms by (auto simp: has_flat_types_def nth_list_update)

lemma has_flat_types_append_project:
  assumes "has_flat_types s"
    "project_objs s' = project_objs s @ [q]" "application_objs s' = application_objs s"
  shows "has_flat_types s'"
  using assms by (auto simp: has_flat_types_def nth_append)

lemma has_flat_types_same:
  assumes "has_flat_types s"
    "project_objs s' = project_objs s" "application_objs s' = application_objs s"
  shows "has_flat_types s'"
  using assms by (simp add: has_flat_types_def)

lemma dom_reduceUnits: "dom (flatTypes (reduceUnits p ft n)) = dom (flatTypes p)"
  by (auto simp: reduceUnits_def Let_def split: option.splits if_splits)

lemma reduceUnits_fields:
  "officers (reduceUnits p ft n) = officers p" "officerSlot (reduceUnits p ft n) = officerSlot p"
  by (auto simp: reduceUnits_def Let_def split: option.splits)

lemma frame_refl: "frame s s"
  by (simp add: frame_def status_moves_refl projects_kept_refl)

lemma frame_same:
  "application_objs s' = application_objs s \<Longrightarrow> project_objs s' = project_objs s \<Longrightarrow> frame s s'"
  by (simp add: frame_def status_moves_refl projects_kept_refl has_flat_types_def)

lemma frame_app_update:
  assumes "deref (application_objs s) a = Some app"
    and "BTOProject y = BTOProject app" "chosen_flat_type y = chosen_flat_type app"
    and "applicationStatus y = applicationStatus app \<or>
         (applicationStatus app, applicationStatus y) \<in> set moves"
    and "project_objs s' = project_objs s"
    and "application_objs s' = (application_objs s)[a := y]"
  shows "frame s s'"
proof -
  from assms(1) have a: "a < length (application_objs s)" "application_objs s ! a = app"
    by (simp_all add: deref_Some)
  have "status_moves (application_objs s) (application_objs s')"
    unfolding assms(6) using a assms(2-4) by (simp add: status_moves_update)
  moreover have "has_flat_types s'" if "has_flat_types s"
    using that a assms(2,3,5,6) by (simp add: has_flat_types_update_app [of s a y])
  ultimately show ?thesis
    by (simp add: frame_def assms(5) projects_kept_refl)
qed

lemma frame_project_update:
  assumes "deref (project_objs s) i = Some p"
    and "dom (flatTypes q) = dom (flatTypes p)" "officerSlot q = officerSlot p"
    and "officers q = officers p \<or>
         int (length (officers p)) < officerSlot p \<and> length (officers q) = Suc (length (officers p))"
    and "project_objs s' = (project_objs s)[i := q]"
    and "application_objs s' = application_objs s"
  shows "frame s s'"
proof -
  from assms(1) have i: "i < length (project_objs s)" "project_objs s ! i = p"
    by (simp_all add: deref_Some)
  have "projects_kept (project_objs s) (project_objs s')"
    unfolding assms(5) using i assms(2-4) by (simp add: projects_kept_update)
  moreover have "has_flat_types s'" if "has_flat_types s"
    using that i assms(2,5,6) by (simp add: has_flat_types_update_project [of s i q])
  ultimately show ?thesis
    by (simp add: frame_def assms(6) status_moves_refl)
qed

lemma store_fields:
  "application_objs (updateStatus s a x) =
     (application_objs s)[a := (application_objs s ! a)\<lparr>applicationStatus := x\<rparr>]"
  "project_objs (updateStatus s a x) = project_objs s"
  "application_objs (set_requested_withdrawal s a b) =
     (application_objs s)[a := (application_objs s ! a)\<lparr>requested_withdrawal := b\<rparr>]"
  "project_objs (set_requested_withdrawal s a b) = project_objs s"
  "application_objs (append_application s who n) = application_objs s"
  "project_objs (append_application s who n) = project_objs s"
  by (simp_all add: updateStatus_def set_requested_withdrawal_def append_application_def
      split: person.splits)

lemma applyForProject_frame:
  assumes "applyForProject s who project ft = Inr (r, s')"
  shows "frame s s'" and "project_objs s' = project_objs s"
proof -
  have "application_objs s' = application_objs s \<and> project_objs s' = project_objs s \<or>
    (\<exists>p. deref (project_objs s) project = Some p \<and> ft \<in> dom (flatTypes p) \<and>
       project_objs s' = project_objs s \<and>
       application_objs s' = application_objs s @ [Application_init who project ft])"
    using assms
    by (auto simp: applyForProject_def Let_def store_fields split: option.splits if_splits)
  then consider (same) "application_objs s' = application_objs s" "project_objs s' = project_objs s"
    | (new) p where "deref (project_objs s) project = Some p" "ft \<in> dom (flatTypes p)"
       "project_objs s' = project_objs s"
       "application_objs s' = application_objs s @ [Application_init who project ft]"
    by blast
  then show "frame s s'"
  proof cases
    case same
    then show ?thesis by (rule frame_same)
  next
    case new
    have "has_flat_types s'" if "has_flat_types s"
      using that new
      by (simp add: has_flat_types_append_app [of s "Application_init who project ft" s']
          Application_init_def deref_Some)
    then show ?thesis
      by (simp add: frame_def new status_moves_append Application_init_def projects_kept_refl)
  qed
  from assms show "project_objs s' = project_objs s"
    by (auto simp: applyForProject_def Let_def store_fields split: option.splits if_splits)
qed

lemma requestWithdrawal_frame:
  assumes "requestWithdrawal s who c = Inr (r, s')"
  shows "frame s s'" and "project_objs s' = project_objs s"
proof -
  have "application_objs s' = application_objs s \<and> project_objs s' = project_objs s \<or>
    (\<exists>a app. deref (application_objs s) a = Some app \<and> project_objs s' = project_objs s \<and>
       application_objs s' = (application_objs s)[a := app\<lparr>requested_withdrawal := True\<rparr>])"
    using assms
    by (auto simp: requestWithdrawal_def Let_def store_fields deref_Some
        split: option.splits if_splits)
  then consider (same) "application_objs s' = application_objs s" "project_objs s' = project_objs s"
    | (upd) a app where "deref (application_objs s) a = Some app" "project_objs s' = project_objs s"
       "application_objs s' = (application_objs s)[a := app\<lparr>requested_withdrawal := True\<rparr>]"
    by blast
  then show "frame s s'"
  proof cases
    case same
    then show ?thesis by (rule frame_same)
  next
    case upd
    show ?thesis
      by (rule frame_app_update [OF upd(1) _ _ _ upd(2) upd(3)]) simp_all
  qed
  from assms show "project_objs s' = project_objs s"
    by (auto simp: requestWithdrawal_def Let_def store_fields split: option.splits if_splits)
qed

lemma registerToProject_frame:
  assumes "registerToProject s off project = Inr (r, s')"
  shows "frame s s'" and "project_objs s' = project_objs s"
proof -
  from assms have "application_objs s' = application_objs s \<and> project_objs s' = project_objs s"
    by (auto simp: registerToProject_def split: option.splits if_splits)
  then show "frame s s'" and "project_objs s' = project_objs s"
    by (simp_all add: frame_same)
qed

lemma updateFlatAvailability_frame:
  assumes "updateFlatAvailability s off project ft n = Inr (r, s')"
  shows "frame s s'"
proof -
  have "application_objs s' = application_objs s \<and> project_objs s' = project_objs s \<or>
    (\<exists>p. deref (project_objs s) project = Some p \<and> application_objs s' = application_objs s \<and>
       project_objs s' = (project_objs s)[project := reduceUnits p ft n])"
    using assms
    by (auto simp: updateFlatAvailability_def split: option.splits if_splits)
  then consider (same) "application_objs s' = application_objs s" "project_objs s' = project_objs s"
    | (upd) p where "deref (project_objs s) project = Some p"
       "application_objs s' = application_objs s"
       "project_objs s' = (project_objs s)[project := reduceUnits p ft n]"
    by blast
  then show ?thesis
  proof cases
    case same
    then show ?thesis by (rule frame_same)
  next
    case upd
    show ?thesis
      by (rule frame_project_update [OF upd(1) _ _ _ upd(3) upd(2)])
         (simp_all add: dom_reduceUnits reduceUnits_fields)
  qed
qed

lemma createBTOProject_frame:
  "frame s (createBTOProject s m pn nb ft od cd slot)"
  "units_kept (project_objs s) (project_objs (createBTOProject s m pn nb ft od cd slot))"
proof -
  let ?s = "createBTOProject s m pn nb ft od cd slot"
  have "has_flat_types ?s" if "has_flat_types s"
    using that by (rule has_flat_types_append_project) (simp_all add: createBTOProject_def)
  then show "frame s ?s"
    by (simp add: frame_def) (simp add: createBTOProject_def status_moves_refl projects_kept_append)
  show "units_kept (project_objs s) (project_objs ?s)"
    by (simp add: createBTOProject_def units_kept_append)
qed

lemma editBTOProject_frame:
  assumes "editBTOProject s m project nn nb None = Inr (r, s')"
  shows "frame s s'" and "units_kept (project_objs s) (project_objs s')"
proof -
  have "application_objs s' = application_objs s \<and> project_objs s' = project_objs s \<or>
    (\<exists>p q. deref (project_objs s) project = Some p \<and> application_objs s' = application_objs s \<and>
       flatTypes q = flatTypes p \<and> officerSlot q = officerSlot p \<and> officers q = officers p \<and>
       project_objs s' = (project_objs s)[project := q])"
  proof (cases "deref (project_objs s) project")
    case None
    with assms show ?thesis by (simp add: editBTOProject_def)
  next
    case (Some p)
    show ?thesis
    proof (cases "manager p = Some m")
      case False
      with Some assms show ?thesis by (simp add: editBTOProject_def)
    next
      case True
      define p1 where "p1 = (case nn of None \<Rightarrow> p | Some n \<Rightarrow> if n \<noteq> [] then p\<lparr>projectName := n\<rparr> else p)"
      define p2 where "p2 = (case nb of None \<Rightarrow> p1 | Some n \<Rightarrow> if n \<noteq> [] then p1\<lparr>neighborhood := n\<rparr> else p1)"
      have 1: "flatTypes p1 = flatTypes p \<and> officerSlot p1 = officerSlot p \<and> officers p1 = officers p"
        by (simp add: p1_def split: option.splits)
      have 2: "flatTypes p2 = flatTypes p \<and> officerSlot p2 = officerSlot p \<and> officers p2 = officers p"
        using 1 by (simp add: p2_def split: option.splits)
      have "s' = s\<lparr>project_objs := (project_objs s)[project := p2]\<rparr>"
        unfolding p2_def p1_def
        using assms Some True by (auto simp: editBTOProject_def Let_def)
      then have "application_objs s' = application_objs s"
        "project_objs s' = (project_objs s)[project := p2]"
        by simp_all
      with Some 2 show ?thesis by blast
    qed
  qed
  then consider (same) "application_objs s' = application_objs s" "project_objs s' = project_objs s"
    | (upd) p q where "deref (project_objs s) project = Some p"
       "application_objs s' = application_objs s" "flatTypes q = flatTypes p"
       "officerSlot q = officerSlot p" "officers q = officers p"
       "project_objs s' = (project_objs s)[project := q]"
    by blast
  then have "frame s s' \<and> units_kept (project_objs s) (project_objs s')"
  proof cases
    case same
    then show ?thesis by (simp add: frame_same units_kept_refl)
  next
    case upd
    have "frame s s'"
      by (rule frame_project_update [OF upd(1) _ _ _ upd(6) upd(2)]) (simp_all add: upd)
    moreover have "units_kept (project_objs s) (project_objs s')"
      using upd by (simp add: units_kept_update deref_Some)
    ultimately show ?thesis ..
  qed
  then show "frame s s'" and "units_kept (project_objs s) (project_objs s')"
    by simp_all
qed

lemma toggleProjectVisibility_frame:
  assumes "toggleProjectVisibility s m project v = Inr (r, s')"
  shows "frame s s'" and "units_kept (project_objs s) (project_objs s')"
proof -
  have "application_objs s' = application_objs s \<and> project_objs s' = project_objs s \<or>
    (\<exists>p. deref (project_objs s) project = Some p \<and> application_objs s' = application_objs s \<and>
       project_objs s' = (project_objs s)[project := p\<lparr>visibility := v\<rparr>])"
    using assms
    by (auto simp: toggleProjectVisibility_def split: option.splits if_splits)
  then consider (same) "application_objs s' = application_objs s" "project_objs s' = project_objs s"
    | (upd) p where "deref (project_objs s) project = Some p"
       "application_objs s' = application_objs s"
       "project_objs s' = (project_objs s)[project := p\<lparr>visibility := v\<rparr>]"
    by blast
  then have "frame s s' \<and> units_kept (project_objs s) (project_objs s')"
  proof cases
    case same
    then show ?thesis by (simp add: frame_same units_kept_refl)
  next
    case upd
    have "frame s s'"
      by (rule frame_project_update [OF upd(1) _ _ _ upd(3) upd(2)]) simp_all
    moreover have "units_kept (project_objs s) (project_objs s')"
      using upd by (simp add: units_kept_update deref_Some)
    ultimately show ?thesis ..
  qed
  then show "frame s s'" and "units_kept (project_objs s) (project_objs s')"
    by simp_all
qed

lemma approveOrRejectApplication_frame:
  assumes "approveOrRejectApplication s m a d = Inr (r, s')"
  shows "frame s s'" and "project_objs s' = project_objs s"
proof -
  have "application_objs s' = application_objs s \<and> project_objs s' = project_objs s \<or>
    (\<exists>app x. deref (application_objs s) a = Some app \<and> project_objs s' = project_objs s \<and>
       applicationStatus app = ''Pending'' \<and> (x = ''Successful'' \<or> x = ''Unsuccessful'') \<and>
       application_objs s' = (application_objs s)[a := app\<lparr>applicationStatus := x\<rparr>])"
  proof (cases "deref (application_objs s) a")
    case None
    with assms show ?thesis by (simp add: approveOrRejectApplication_def)
  next
    case (Some app)
    then have a: "a < length (application_objs s)" "application_objs s ! a = app"
      by (simp_all add: deref_Some)
    from assms Some
    have "s' = s \<or> applicationStatus app = ''Pending'' \<and>
        (s' = updateStatus s a ''Successful'' \<or> s' = updateStatus s a ''Unsuccessful'')"
      by (auto simp: approveOrRejectApplication_def split: option.splits if_splits)
    then consider "s' = s"
      | "applicationStatus app = ''Pending''" "s' = updateStatus s a ''Successful''"
      | "applicationStatus app = ''Pending''" "s' = updateStatus s a ''Unsuccessful''"
      by blast
    then show ?thesis
    proof cases
      case 1
      then show ?thesis by simp
    next
      case 2
      with Some a have "project_objs s' = project_objs s \<and>
          application_objs s' = (application_objs s)[a := app\<lparr>applicationStatus := ''Successful''\<rparr>]"
        by (simp add: store_fields)
      with Some 2 show ?thesis by blast
    next
      case 3
      with Some a have "project_objs s' = project_objs s \<and>
          application_objs s' = (application_objs s)[a := app\<lparr>applicationStatus := ''Unsuccessful''\<rparr>]"
        by (simp add: store_fields)
      with Some 3 show ?thesis by blast
    qed
  qed
  then consider (same) "application_objs s' = application_objs s" "project_objs s' = project_objs s"
    | (upd) app x where "deref (application_objs s) a = Some app"
       "project_objs s' = project_objs s" "applicationStatus app = ''Pending''"
       "x = ''Successful'' \<or> x = ''Unsuccessful''"
       "application_objs s' = (application_objs s)[a := app\<lparr>applicationStatus := x\<rparr>]"
    by blast
  then have "frame s s' \<and> project_objs s' = project_objs s"
  proof cases
    case same
    then show ?thesis by (simp add: frame_same)
  next
    case upd
    have "frame s s'"
      by (rule frame_app_update [OF upd(1) _ _ _ upd(2) upd(5)])
         (use upd(3,4) in \<open>auto simp: moves_def\<close>)
    with upd(2) show ?thesis by simp
  qed
  then show "frame s s'" and "project_objs s' = project_objs s"
    by simp_all
qed

lemma approveOrRejectWithdrawal_frame:
  assumes "approveOrRejectWithdrawal s m a d = Inr (r, s')"
  shows "frame s s'" and "project_objs s' = project_objs s"
proof -
  have "application_objs s' = application_objs s \<and> project_objs s' = project_objs s \<or>
    (\<exists>app. deref (application_objs s) a = Some app \<and> project_objs s' = project_objs s \<and>
       (application_objs s' = (application_objs s)[a := app\<lparr>requested_withdrawal := False\<rparr>] \<or>
        (applicationStatus app = ''Pending'' \<or> applicationStatus app = ''Successful'') \<and>
        application_objs s' = (application_objs s)
          [a := app\<lparr>applicationStatus := ''Unsuccessful'', requested_withdrawal := False\<rparr>]))"
  proof (cases "deref (application_objs s) a")
    case None
    with assms show ?thesis by (simp add: approveOrRejectWithdrawal_def)
  next
    case (Some app)
    then have a: "a < length (application_objs s)" "application_objs s ! a = app"
      by (simp_all add: deref_Some)
    show ?thesis
    proof (cases "deref (project_objs s) (BTOProject app)")
      case None
      with Some assms show ?thesis by (simp add: approveOrRejectWithdrawal_def)
    next
      case p: (Some p)
      from assms Some p
      have "s' = s \<or> s' = set_requested_withdrawal s a False \<or>
        (applicationStatus app = ''Pending'' \<or> applicationStatus app = ''Successful'') \<and>
        s' = set_requested_withdrawal (updateStatus s a ''Unsuccessful'') a False"
        by (auto simp: approveOrRejectWithdrawal_def split: if_splits)
      then consider "s' = s" | "s' = set_requested_withdrawal s a False"
        | "applicationStatus app = ''Pending'' \<or> applicationStatus app = ''Successful''"
          "s' = set_requested_withdrawal (updateStatus s a ''Unsuccessful'') a False"
        by blast
      then show ?thesis
      proof cases
        case 1
        then show ?thesis by simp
      next
        case 2
        with Some a show ?thesis by (simp add: store_fields)
      next
        case 3
        with Some a show ?thesis by (simp add: store_fields)
      qed
    qed
  qed
  then consider (same) "application_objs s' = application_objs s" "project_objs s' = project_objs s"
    | (clear) app where "deref (application_objs s) a = Some app"
       "project_objs s' = project_objs s"
       "application_objs s' = (application_objs s)[a := app\<lparr>requested_withdrawal := False\<rparr>]"
    | (withdraw) app where "deref (application_objs s) a = Some app"
       "project_objs s' = project_objs s"
       "applicationStatus app = ''Pending'' \<or> applicationStatus app = ''Successful''"
       "application_objs s' = (application_objs s)
          [a := app\<lparr>applicationStatus := ''Unsuccessful'', requested_withdrawal := False\<rparr>]"
    by blast
  then have "frame s s' \<and> project_objs s' = project_objs s"
  proof cases
    case same
    then show ?thesis by (simp add: frame_same)
  next
    case clear
    have "frame s s'"
      by (rule frame_app_update [OF clear(1) _ _ _ clear(2) clear(3)]) simp_all
    with clear(2) show ?thesis by simp
  next
    case withdraw
    have "frame s s'"
      by (rule frame_app_update [OF withdraw(1) _ _ _ withdraw(2) withdraw(4)])
         (use withdraw(3) in \<open>auto simp: moves_def\<close>)
    with withdraw(2) show ?thesis by simp
  qed
  then show "frame s s'" and "project_objs s' = project_objs s"
    by simp_all
qed

lemma approveOrRejectHDBOfficerRegistration_eval:
  assumes "deref (officer_objs s) off = Some x"
    and "registered_project x = Some project"
    and "deref (project_objs s) project = Some p"
  shows
  "(manager p \<noteq> Some m \<longrightarrow>
      approveOrRejectHDBOfficerRegistration s m off d = Inr (AuthorizationDenied, s)) \<and>
   (manager p = Some m \<and> registration_status x \<noteq> Some ''Pending'' \<longrightarrow>
      approveOrRejectHDBOfficerRegistration s m off d = Inr (InvalidStateTransition, s)) \<and>
   (manager p = Some m \<and> registration_status x = Some ''Pending'' \<and>
    officerSlot p \<le> int (length (officers p)) \<longrightarrow>
      approveOrRejectHDBOfficerRegistration s m off True = Inr (SlotExhausted, s)) \<and>
   (manager p = Some m \<and> registration_status x = Some ''Pending'' \<and>
    int (length (officers p)) < officerSlot p \<longrightarrow>
      approveOrRejectHDBOfficerRegistration s m off True =
        Inr (Done,
          s\<lparr>project_objs := (project_objs s)[project := p\<lparr>officers := officers p @ [off]\<rparr>],
            officer_objs := (officer_objs s)
              [off := x\<lparr>handling_project := Some project,
                         registration_status := Some ''Approved''\<rparr>]\<rparr>)) \<and>
   (manager p = Some m \<and> registration_status x = Some ''Pending'' \<longrightarrow>
      approveOrRejectHDBOfficerRegistration s m off False =
        Inr (Done, s\<lparr>officer_objs := (officer_objs s)
               [off := x\<lparr>registration_status := Some ''Rejected''\<rparr>]\<rparr>))"
  using assms by (simp add: approveOrRejectHDBOfficerRegistration_def)

lemma approveOrRejectHDBOfficerRegistration_frame:
  assumes "approveOrRejectHDBOfficerRegistration s m off d = Inr (r, s')"
  shows "frame s s'" and "units_kept (project_objs s) (project_objs s')"
proof -
  have "application_objs s' = application_objs s \<and> project_objs s' = project_objs s \<or>
    (\<exists>project p. deref (project_objs s) project = Some p \<and>
       int (length (officers p)) < officerSlot p \<and>
       application_objs s' = application_objs s \<and>
       project_objs s' = (project_objs s)[project := p\<lparr>officers := officers p @ [off]\<rparr>])"
  proof (cases "deref (officer_objs s) off")
    case None
    with assms show ?thesis by (simp add: approveOrRejectHDBOfficerRegistration_def)
  next
    case (Some x)
    show ?thesis
    proof (cases "registered_project x")
      case None
      with Some assms show ?thesis by (simp add: approveOrRejectHDBOfficerRegistration_def)
    next
      case project: (Some project)
      show ?thesis
      proof (cases "deref (project_objs s) project")
        case None
        with Some project assms show ?thesis
          by (simp add: approveOrRejectHDBOfficerRegistration_def)
      next
        case p: (Some p)
        note e = approveOrRejectHDBOfficerRegistration_eval [OF Some project p, of m]
        show ?thesis
        proof (cases "manager p = Some m \<and> registration_status x = Some ''Pending''")
          case False
          with e [of d] assms show ?thesis by auto
        next
          case ok: True
          show ?thesis
          proof (cases d)
            case False
            with ok e [of d] assms show ?thesis by auto
          next
            case True
            show ?thesis
            proof (cases "int (length (officers p)) < officerSlot p")
              case False
              with ok True e [of d] assms show ?thesis by auto
            next
              case room: True
              with ok True e [of d] assms
              have "application_objs s' = application_objs s \<and>
                project_objs s' = (project_objs s)[project := p\<lparr>officers := officers p @ [off]\<rparr>]"
                by auto
              with p room show ?thesis by blast
            qed
          qed
        qed
      qed
    qed
  qed
  then consider (same) "application_objs s' = application_objs s" "project_objs s' = project_objs s"
    | (upd) project p where "deref (project_objs s) project = Some p"
       "int (length (officers p)) < officerSlot p"
       "application_objs s' = application_objs s"
       "project_objs s' = (project_objs s)[project := p\<lparr>officers := officers p @ [off]\<rparr>]"
    by blast
  then have "frame s s' \<and> units_kept (project_objs s) (project_objs s')"
  proof cases
    case same
    then show ?thesis by (simp add: frame_same units_kept_refl)
  next
    case upd
    have "frame s s'"
      by (rule frame_project_update [OF upd(1) _ _ _ upd(4) upd(3)]) (simp_all add: upd(2))
    moreover have "units_kept (project_objs s) (project_objs s')"
      using upd by (simp add: units_kept_update deref_Some)
    ultimately show ?thesis ..
  qed
  then show "frame s s'" and "units_kept (project_objs s) (project_objs s')"
    by simp_all
qed

lemma units_kept_same: "qs = ps \<Longrightarrow> units_kept ps qs"
  by (simp add: units_kept_refl)

lemma step_frame:
  assumes "step s r = Inr s'"
  shows "frame s s'"
proof (cases r)
  case (Apply who project ft)
  with assms show ?thesis
    by (auto simp: uncaught_def split: sum.splits dest: applyForProject_frame(1))
next
  case (RequestWithdrawal who c)
  with assms show ?thesis
    by (auto simp: uncaught_def split: sum.splits dest: requestWithdrawal_frame(1))
next
  case (RegisterToProject off project)
  with assms show ?thesis
    by (auto simp: uncaught_def split: sum.splits dest: registerToProject_frame(1))
next
  case (UpdateFlatAvailability off project ft n)
  with assms show ?thesis
    by (auto simp: uncaught_def split: sum.splits dest: updateFlatAvailability_frame)
next
  case (CreateBTOProject m pn nb ft od cd slot)
  with assms show ?thesis
    by (auto simp: createBTOProject_frame(1))
next
  case (EditBTOProject m project nn nb)
  with assms show ?thesis
    by (auto simp: uncaught_def split: sum.splits dest: editBTOProject_frame(1))
next
  case (ToggleProjectVisibility m project v)
  with assms show ?thesis
    by (auto simp: uncaught_def split: sum.splits dest: toggleProjectVisibility_frame(1))
next
  case (ApproveOrRejectApplication m a d)
  with assms show ?thesis
    by (auto simp: caught_def frame_refl split: sum.splits
        dest: approveOrRejectApplication_frame(1))
next
  case (ApproveOrRejectWithdrawal m a d)
  with assms show ?thesis
    by (auto simp: caught_def frame_refl split: sum.splits
        dest: approveOrRejectWithdrawal_frame(1))
next
  case (ApproveOrRejectHDBOfficerRegistration m off d)
  with assms show ?thesis
    by (auto simp: caught_def frame_refl split: sum.splits
        dest: approveOrRejectHDBOfficerRegistration_frame(1))
qed

lemma step_units_kept:
  assumes "step s r = Inr s'" and "\<forall>off project ft n. r \<noteq> UpdateFlatAvailability off project ft n"
  shows "units_kept (project_objs s) (project_objs s')"
proof (cases r)
  case (Apply who project ft)
  with assms show ?thesis
    by (auto simp: uncaught_def split: sum.splits
        dest!: applyForProject_frame(2) intro: units_kept_same)
next
  case (RequestWithdrawal who c)
  with assms show ?thesis
    by (auto simp: uncaught_def split: sum.splits
        dest!: requestWithdrawal_frame(2) intro: units_kept_same)
next
  case (RegisterToProject off project)
  with assms show ?thesis
    by (auto simp: uncaught_def split: sum.splits
        dest!: registerToProject_frame(2) intro: units_kept_same)
next
  case (UpdateFlatAvailability off project ft n)
  with assms show ?thesis by simp
next
  case (CreateBTOProject m pn nb ft od cd slot)
  with assms show ?thesis
    by (auto simp: createBTOProject_frame(2))
next
  case (EditBTOProject m project nn nb)
  with assms show ?thesis
    by (auto simp: uncaught_def split: sum.splits dest: editBTOProject_frame(2))
next
  case (ToggleProjectVisibility m project v)
  with assms show ?thesis
    by (auto simp: uncaught_def split: sum.splits dest: toggleProjectVisibility_frame(2))
next
  case (ApproveOrRejectApplication m a d)
  with assms show ?thesis
    by (auto simp: caught_def units_kept_refl split: sum.splits
        dest!: approveOrRejectApplication_frame(2) intro: units_kept_same)
next
  case (ApproveOrRejectWithdrawal m a d)
  with assms show ?thesis
    by (auto simp: caught_def units_kept_refl split: sum.splits
        dest!: approveOrRejectWithdrawal_frame(2) intro: units_kept_same)
next
  case (ApproveOrRejectHDBOfficerRegistration m off d)
  with assms show ?thesis
    by (auto simp: caught_def units_kept_refl split: sum.splits
        dest: approveOrRejectHDBOfficerRegistration_frame(2))
qed

lemma moves_allowed: "set moves \<subseteq> set transitions"
  by (simp add: moves_def transitions_def)

lemma step_length:
  assumes "step s r = Inr s'"
    and "\<forall>m pn nb ft od cd slot. r \<noteq> CreateBTOProject m pn nb ft od cd slot"
  shows "length (project_objs s') = length (project_objs s)"
proof (cases r)
  case (Apply who project ft)
  with assms show ?thesis
    by (auto simp: uncaught_def split: sum.splits dest!: applyForProject_frame(2))
next
  case (RequestWithdrawal who c)
  with assms show ?thesis
    by (auto simp: uncaught_def split: sum.splits dest!: requestWithdrawal_frame(2))
next
  case (RegisterToProject off project)
  with assms show ?thesis
    by (auto simp: uncaught_def split: sum.splits dest!: registerToProject_frame(2))
next
  case (UpdateFlatAvailability off project ft n)
  with assms show ?thesis
    by (auto simp: uncaught_def updateFlatAvailability_def split: sum.splits option.splits if_splits)
next
  case (CreateBTOProject m pn nb ft od cd slot)
  with assms show ?thesis by simp
next
  case (EditBTOProject m project nn nb)
  with assms show ?thesis
    by (auto simp: uncaught_def editBTOProject_def Let_def split: sum.splits option.splits if_splits)
next
  case (ToggleProjectVisibility m project v)
  with assms show ?thesis
    by (auto simp: uncaught_def toggleProjectVisibility_def
        split: sum.splits option.splits if_splits)
next
  case (ApproveOrRejectApplication m a d)
  with assms show ?thesis
    by (auto simp: caught_def split: sum.splits dest!: approveOrRejectApplication_frame(2))
next
  case (ApproveOrRejectWithdrawal m a d)
  with assms show ?thesis
    by (auto simp: caught_def split: sum.splits dest!: approveOrRejectWithdrawal_frame(2))
next
  case (ApproveOrRejectHDBOfficerRegistration m off d)
  with assms show ?thesis
    by (auto simp: caught_def approveOrRejectHDBOfficerRegistration_def
        split: sum.splits option.splits if_splits)
qed

lemma step_slots:
  assumes "step s r = Inr s'" and "slots_respected s" and "slot_not_negative r"
  shows "slots_respected s'"
proof (cases "\<exists>m pn nb ft od cd slot. r = CreateBTOProject m pn nb ft od cd slot")
  case True
  then obtain m pn nb ft od cd slot where r: "r = CreateBTOProject m pn nb ft od cd slot"
    by blast
  with assms(1) have s': "s' = createBTOProject s m pn nb ft od cd slot"
    by simp
  from assms(3) r have "0 \<le> slot"
    by simp
  with assms(2) show ?thesis
    by (auto simp: s' slots_respected_def createBTOProject_def BTOProject_init_def nth_append)
next
  case False
  then have n: "length (project_objs s') = length (project_objs s)"
    using assms(1) by (intro step_length) auto
  from assms(1) have "projects_kept (project_objs s) (project_objs s')"
    using step_frame by (simp add: frame_def)
  with assms(2) n show ?thesis
    by (fastforce simp: slots_respected_def projects_kept_def)
qed

lemma run_slots:
  "run s rs = Inr s' \<Longrightarrow> slots_respected s \<Longrightarrow> list_all slot_not_negative rs \<Longrightarrow>
   slots_respected s'"
proof (induction rs arbitrary: s)
  case Nil
  then show ?case by simp
next
  case (Cons r rs)
  from Cons.prems(1) obtain s1 where s1: "step s r = Inr s1" "run s1 rs = Inr s'"
    by (auto split: sum.splits)
  from s1(1) Cons.prems(2,3) have "slots_respected s1"
    by (auto intro: step_slots)
  with Cons.IH [OF s1(2)] Cons.prems(3) show ?case
    by simp
qed

lemma run_has_flat_types:
  "run s rs = Inr s' \<Longrightarrow> has_flat_types s \<Longrightarrow> has_flat_types s'"
proof (induction rs arbitrary: s)
  case Nil
  then show ?case by simp
next
  case (Cons r rs)
  from Cons.prems(1) obtain s1 where s1: "step s r = Inr s1" "run s1 rs = Inr s'"
    by (auto split: sum.splits)
  from step_frame [OF s1(1)] Cons.prems(2) have "has_flat_types s1"
    by (simp add: frame_def)
  with Cons.IH [OF s1(2)] show ?case .
qed

lemma has_flat_types_no_KeyError:
  assumes "has_flat_types s"
  shows "approveOrRejectApplication s m a d \<noteq> Inl KeyError"
proof (cases "deref (application_objs s) a")
  case None
  then show ?thesis by (simp add: approveOrRejectApplication_def)
next
  case (Some app)
  with assms have "BTOProject app < length (project_objs s)"
    "chosen_flat_type app \<in> dom (flatTypes (project_objs s ! BTOProject app))"
    by (auto simp: has_flat_types_def deref_Some)
  with Some show ?thesis
    by (auto simp: approveOrRejectApplication_def deref_def split: if_splits)
qed

lemma step_never_books:
  assumes "step s r = Inr s'" and "a < length (application_objs s')"
    and "applicationStatus (application_objs s' ! a) = ''Booked''"
  shows "a < length (application_objs s) \<and> applicationStatus (application_objs s ! a) = ''Booked''"
proof -
  from step_frame [OF assms(1)]
  have m: "status_moves (application_objs s) (application_objs s')"
    by (simp add: frame_def)
  show ?thesis
  proof (cases "a < length (application_objs s)")
    case True
    with m assms(3) show ?thesis
      by (auto simp: status_moves_def moves_def)
  next
    case False
    with m assms(2) have "applicationStatus (application_objs s' ! a) = ''Pending''"
      by (simp add: status_moves_def)
    with assms(3) show ?thesis by simp
  qed
qed

section \<open>The estate at work\<close>

lemma estate_lists:
  "application_objs (estate_applied app) = [app]"
  "project_objs (estate_applied app) = [acacia]"
  "application_objs estate = []"
  "project_objs estate = [acacia]"
  by (simp_all add: estate_applied_def estate_def)

lemma estate_apply:
  "applyForProject estate (AnApplicant 0) 0 ''2-Room'' = Inr (Done, estate_applied alice_app)"
proof -
  have n: "applications alice = []"
    by (simp add: alice_def)
  have a: "active_app estate alice = []"
    by (simp add: active_app_def n)
  have e: "eligibility alice ''2-Room'' = None"
    by (simp add: eligibility_def alice_def lower_examples)
  have f: "flatTypes acacia ''2-Room'' = Some \<lparr>units = 1, price = 100\<rparr>"
    by (simp add: acacia_def BTOProject_init_def)
  have g: "append_application (estate\<lparr>application_objs := [alice_app]\<rparr>) (AnApplicant 0) 0 =
      estate_applied alice_app"
    by (simp add: append_application_def estate_def estate_applied_def n)
  have i: "Application_init (AnApplicant 0) 0 ''2-Room'' = alice_app"
    by (simp add: Application_init_def alice_app_def)
  show ?thesis
    by (simp add: applyForProject_def estate_objects estate_lists(3) a e f i g Let_def)
qed

lemma estate_approve:
  "approveOrRejectApplication (estate_applied alice_app) 0 0 True =
     Inr (Done, estate_applied (alice_app\<lparr>applicationStatus := ''Successful''\<rparr>))"
proof -
  have p: "deref (project_objs (estate_applied alice_app)) (BTOProject alice_app) = Some acacia"
    by (simp add: estate_objects alice_app_def)
  have u: "updateStatus (estate_applied alice_app) 0 ''Successful'' =
      estate_applied (alice_app\<lparr>applicationStatus := ''Successful''\<rparr>)"
    by (simp add: updateStatus_def estate_applied_def)
  have f: "flatTypes acacia ''2-Room'' = Some \<lparr>units = 1, price = 100\<rparr>" "manager acacia = Some 0"
    by (simp_all add: acacia_def BTOProject_init_def)
  have c: "applicationStatus alice_app = ''Pending''" "chosen_flat_type alice_app = ''2-Room''"
    by (simp_all add: alice_app_def)
  show ?thesis
    by (simp add: approveOrRejectApplication_def estate_objects p u f c)
qed

lemma estate_run:
  "run estate [Apply (AnApplicant 0) 0 ''2-Room''] = Inr (estate_applied alice_app)"
  "step (estate_applied alice_app) (ApproveOrRejectApplication 0 0 True) =
     Inr (estate_applied (alice_app\<lparr>applicationStatus := ''Successful''\<rparr>))"
  by (simp_all add: estate_apply estate_approve uncaught_def caught_def)

section \<open>Status transitions\<close>

text \<open>
  Claim C4. After any sequence of session requests, from any store, the next request keeps
  every application object, and each one keeps its status or changes it along Pending to
  Successful, Pending to Unsuccessful, Successful to Unsuccessful or Successful to Booked;
  an application that is Unsuccessful or Booked keeps its status; an application object the
  request creates is Pending.
\<close>

theorem status_transitions:
  assumes "run s0 rs = Inr s" and "step s r = Inr s'"
  shows
  "length (application_objs s) \<le> length (application_objs s') \<and>
   (\<forall>a < length (application_objs s).
      applicationStatus (application_objs s' ! a) = applicationStatus (application_objs s ! a) \<or>
      (applicationStatus (application_objs s ! a), applicationStatus (application_objs s' ! a))
        \<in> set transitions) \<and>
   (\<forall>a < length (application_objs s).
      applicationStatus (application_objs s ! a) \<in> {''Unsuccessful'', ''Booked''} \<longrightarrow>
      applicationStatus (application_objs s' ! a) = applicationStatus (application_objs s ! a)) \<and>
   (\<forall>a. length (application_objs s) \<le> a \<and> a < length (application_objs s') \<longrightarrow>
      applicationStatus (application_objs s' ! a) = ''Pending'')"
proof -
  from step_frame [OF assms(2)]
  have m: "status_moves (application_objs s) (application_objs s')"
    by (simp add: frame_def)
  have 1: "length (application_objs s) \<le> length (application_objs s')"
    using m by (simp add: status_moves_def)
  have 2: "applicationStatus (application_objs s' ! a) = applicationStatus (application_objs s ! a) \<or>
      (applicationStatus (application_objs s ! a), applicationStatus (application_objs s' ! a))
        \<in> set moves" if "a < length (application_objs s)" for a
    using m that by (simp add: status_moves_def)
  have 3: "applicationStatus (application_objs s' ! a) = applicationStatus (application_objs s ! a)"
    if "a < length (application_objs s)"
      "applicationStatus (application_objs s ! a) \<in> {''Unsuccessful'', ''Booked''}" for a
    using 2 [OF that(1)] that(2) by (auto simp: moves_def)
  have 4: "applicationStatus (application_objs s' ! a) = ''Pending''"
    if "length (application_objs s) \<le> a" "a < length (application_objs s')" for a
    using m that by (simp add: status_moves_def)
  from 1 2 3 4 moves_allowed show ?thesis
    by blast
qed

theorem status_transitions_witness:
  "run estate [Apply (AnApplicant 0) 0 ''2-Room''] = Inr (estate_applied alice_app) \<and>
   step (estate_applied alice_app) (ApproveOrRejectApplication 0 0 True) =
     Inr (estate_applied (alice_app\<lparr>applicationStatus := ''Successful''\<rparr>)) \<and>
   applicationStatus alice_app = ''Pending'' \<and>
   (''Pending'', ''Successful'') \<in> set transitions"
proof -
  have c: "applicationStatus alice_app = ''Pending''"
    by (simp add: alice_app_def)
  from status_transitions [OF estate_run]
  have "applicationStatus (alice_app\<lparr>applicationStatus := ''Successful''\<rparr>) =
      applicationStatus alice_app \<or>
    (applicationStatus alice_app,
     applicationStatus (alice_app\<lparr>applicationStatus := ''Successful''\<rparr>)) \<in> set transitions"
    by (simp add: estate_lists)
  then have "(''Pending'', ''Successful'') \<in> set transitions"
    by (simp add: c)
  with c estate_run show ?thesis
    by (simp only: simp_thms)
qed

section \<open>Approval and the unit inventory\<close>

text \<open>
  Claim C8. Whatever \<^verbatim>\<open>approveOrRejectApplication\<close> returns, the project objects are the
  ones before the call, so every flat type of every project has the unit count it had; the
  session's approval request always returns, with the same project objects. A session
  request other than the officer's booking update \<^verbatim>\<open>updateFlatAvailability\<close> keeps every
  project, with the flat type mapping it had.
\<close>

theorem approval_keeps_units:
  "(\<forall>r s'. approveOrRejectApplication s m a d = Inr (r, s') \<longrightarrow>
      project_objs s' = project_objs s) \<and>
   (\<exists>s'. step s (ApproveOrRejectApplication m a d) = Inr s' \<and>
      project_objs s' = project_objs s) \<and>
   (\<forall>r s'. step s r = Inr s' \<and>
      (\<forall>off project ft n. r \<noteq> UpdateFlatAvailability off project ft n) \<longrightarrow>
      length (project_objs s) \<le> length (project_objs s') \<and>
      (\<forall>i < length (project_objs s). \<forall>ft.
         flatTypes (project_objs s' ! i) ft = flatTypes (project_objs s ! i) ft))"
proof -
  have 1: "project_objs s' = project_objs s"
    if "approveOrRejectApplication s m a d = Inr (r, s')" for r s'
    using that by (rule approveOrRejectApplication_frame(2))
  have 2: "\<exists>s'. step s (ApproveOrRejectApplication m a d) = Inr s' \<and>
      project_objs s' = project_objs s"
    using 1 by (cases "approveOrRejectApplication s m a d") (auto simp: caught_def)
  have 3: "length (project_objs s) \<le> length (project_objs s') \<and>
      (\<forall>i < length (project_objs s). \<forall>ft.
         flatTypes (project_objs s' ! i) ft = flatTypes (project_objs s ! i) ft)"
    if "step s r = Inr s'" "\<forall>off project ft n. r \<noteq> UpdateFlatAvailability off project ft n"
    for r s'
    using step_units_kept [OF that] by (simp add: units_kept_def)
  from 1 2 3 show ?thesis
    by blast
qed

theorem approval_keeps_units_witness:
  "approveOrRejectApplication (estate_applied alice_app) 0 0 True =
     Inr (Done, estate_applied (alice_app\<lparr>applicationStatus := ''Successful''\<rparr>)) \<and>
   project_objs (estate_applied (alice_app\<lparr>applicationStatus := ''Successful''\<rparr>)) =
     project_objs (estate_applied alice_app) \<and>
   flatTypes (project_objs (estate_applied (alice_app\<lparr>applicationStatus := ''Successful''\<rparr>)) ! 0)
     ''2-Room'' = Some \<lparr>units = 1, price = 100\<rparr>"
proof -
  from approval_keeps_units [of "estate_applied alice_app" 0 0 True] estate_approve
  have "project_objs (estate_applied (alice_app\<lparr>applicationStatus := ''Successful''\<rparr>)) =
     project_objs (estate_applied alice_app)"
    by blast
  then show ?thesis
    by (simp add: estate_approve estate_lists acacia_def BTOProject_init_def)
qed

section \<open>Officer slots\<close>

lemma estate_officers:
  "deref (officer_objs estate_registered) 0 =
     Some (olive\<lparr>registration_status := Some ''Pending'', registered_project := Some 0\<rparr>)"
  "deref (officer_objs estate_staffed) (Suc 0) =
     Some (oscar\<lparr>registration_status := Some ''Pending'', registered_project := Some 0\<rparr>)"
  "deref (project_objs estate_registered) 0 = Some acacia"
  "deref (project_objs estate_staffed) 0 = Some (acacia\<lparr>officers := [0]\<rparr>)"
  by (simp_all add: deref_def estate_registered_def estate_staffed_def)

lemma acacia_fields:
  "manager acacia = Some 0" "officerSlot acacia = 1" "officers acacia = []"
  "flatTypes acacia ''2-Room'' = Some \<lparr>units = 1, price = 100\<rparr>"
  "flatTypes acacia ''3-Room'' = Some \<lparr>units = 0, price = 200\<rparr>"
  "flatTypes acacia ''4-Room'' = None"
  by (simp_all add: acacia_def BTOProject_init_def)

text \<open>
  Claim C9, as the code has it. A project made with a negative number of officer slots has
  no officers and yet more officers than slots, so the bound is not unconditional.
\<close>

theorem officer_slots_counterexample:
  "step estate (CreateBTOProject 0 ''Birch'' ''Yishun'' (flatTypes acacia) None None (- 1)) =
     Inr (createBTOProject estate 0 ''Birch'' ''Yishun'' (flatTypes acacia) None None (- 1)) \<and>
   officerSlot
     (project_objs (createBTOProject estate 0 ''Birch'' ''Yishun'' (flatTypes acacia) None None (- 1)) ! 1)
   < int (length (officers
     (project_objs (createBTOProject estate 0 ''Birch'' ''Yishun'' (flatTypes acacia) None None (- 1)) ! 1)))"
  by (simp add: createBTOProject_def BTOProject_init_def estate_def)

text \<open>
  Claim C9, amended. If no project has more officers than officer slots, and every project
  made afterwards is made with zero or more slots, then after any sequence of session
  requests no project has more officers than slots. For an officer registered for a project:
  a manager who does not own the project is refused, and so is a decision on a registration
  that is not Pending; for the owning manager and a Pending registration, approving when the
  project has as many officers as slots (or more) fails with SlotExhausted and changes
  nothing; approving when it has fewer appends the officer to the project's officers, sets
  the officer's handling project to the project and the registration status to Approved.
\<close>

theorem officer_slots_kept:
  "(slots_respected s \<and> list_all slot_not_negative rs \<and> run s rs = Inr s' \<longrightarrow>
      slots_respected s') \<and>
   (deref (officer_objs s) off = Some x \<and> registered_project x = Some project \<and>
    deref (project_objs s) project = Some p \<longrightarrow>
      (manager p \<noteq> Some m \<longrightarrow>
         approveOrRejectHDBOfficerRegistration s m off d = Inr (AuthorizationDenied, s)) \<and>
      (manager p = Some m \<and> registration_status x \<noteq> Some ''Pending'' \<longrightarrow>
         approveOrRejectHDBOfficerRegistration s m off d = Inr (InvalidStateTransition, s)) \<and>
      (manager p = Some m \<and> registration_status x = Some ''Pending'' \<and>
       officerSlot p \<le> int (length (officers p)) \<longrightarrow>
         approveOrRejectHDBOfficerRegistration s m off True = Inr (SlotExhausted, s)) \<and>
      (manager p = Some m \<and> registration_status x = Some ''Pending'' \<and>
       int (length (officers p)) < officerSlot p \<longrightarrow>
         approveOrRejectHDBOfficerRegistration s m off True =
           Inr (Done,
             s\<lparr>project_objs := (project_objs s)[project := p\<lparr>officers := officers p @ [off]\<rparr>],
               officer_objs := (officer_objs s)
                 [off := x\<lparr>handling_project := Some project,
                            registration_status := Some ''Approved''\<rparr>]\<rparr>)))"
  using run_slots [of s rs s'] approveOrRejectHDBOfficerRegistration_eval [of s off x project p m]
  by blast

theorem officer_slots_kept_witness:
  "slots_respected estate_registered \<and>
   run estate_registered
     [ApproveOrRejectHDBOfficerRegistration 0 0 True,
      ApproveOrRejectHDBOfficerRegistration 0 1 True] = Inr estate_staffed \<and>
   slots_respected estate_staffed \<and>
   approveOrRejectHDBOfficerRegistration estate_registered 0 0 True = Inr (Done, estate_staffed) \<and>
   approveOrRejectHDBOfficerRegistration estate_staffed 0 1 True =
     Inr (SlotExhausted, estate_staffed) \<and>
   approveOrRejectHDBOfficerRegistration estate_staffed 7 1 True =
     Inr (AuthorizationDenied, estate_staffed)"
proof -
  have r: "registered_project
      (olive\<lparr>registration_status := Some ''Pending'', registered_project := Some 0\<rparr>) = Some 0"
    "registered_project
      (oscar\<lparr>registration_status := Some ''Pending'', registered_project := Some 0\<rparr>) = Some 0"
    by simp_all
  have u: "estate_registered
      \<lparr>project_objs := (project_objs estate_registered)[0 := acacia\<lparr>officers := [0]\<rparr>],
       officer_objs := (officer_objs estate_registered)
         [0 := olive\<lparr>registered_project := Some 0, handling_project := Some 0,
                      registration_status := Some ''Approved''\<rparr>]\<rparr> =
      estate_staffed"
    by (simp add: estate_registered_def estate_staffed_def)
  have 1: "approveOrRejectHDBOfficerRegistration estate_registered 0 0 True =
      Inr (Done, estate_staffed)"
    using officer_slots_kept [where s = estate_registered and off = 0 and project = 0
        and p = acacia and m = 0,
        where x = "olive\<lparr>registration_status := Some ''Pending'', registered_project := Some 0\<rparr>"]
    by (simp add: estate_officers acacia_fields u)
  have 2: "approveOrRejectHDBOfficerRegistration estate_staffed 0 1 True =
      Inr (SlotExhausted, estate_staffed)"
    using officer_slots_kept [where s = estate_staffed and off = 1 and project = 0
        and p = "acacia\<lparr>officers := [0]\<rparr>" and m = 0,
        where x = "oscar\<lparr>registration_status := Some ''Pending'', registered_project := Some 0\<rparr>"]
    by (simp add: estate_officers acacia_fields)
  have 3: "approveOrRejectHDBOfficerRegistration estate_staffed 7 1 True =
      Inr (AuthorizationDenied, estate_staffed)"
    using officer_slots_kept [where s = estate_staffed and off = 1 and project = 0
        and p = "acacia\<lparr>officers := [0]\<rparr>" and m = 7 and d = True,
        where x = "oscar\<lparr>registration_status := Some ''Pending'', registered_project := Some 0\<rparr>"]
    by (simp add: estate_officers acacia_fields)
  have 4: "slots_respected estate_registered"
    by (simp add: slots_respected_def estate_registered_def acacia_fields)
  have 5: "run estate_registered
     [ApproveOrRejectHDBOfficerRegistration 0 0 True,
      ApproveOrRejectHDBOfficerRegistration 0 1 True] = Inr estate_staffed"
    using 1 2 by (simp add: caught_def)
  have 6: "slots_respected estate_staffed"
    using officer_slots_kept [where s = estate_registered and s' = estate_staffed and
        rs = "[ApproveOrRejectHDBOfficerRegistration 0 0 True,
               ApproveOrRejectHDBOfficerRegistration 0 1 True]"] 4 5
    by simp
  from 1 2 3 4 5 6 show ?thesis
    by (simp only: simp_thms)
qed

section \<open>The flat type lookup at approval\<close>

lemma eligibility_Some: "eligibility u ft = Some r \<Longrightarrow> r = EligibilityDenied"
  by (auto simp: eligibility_def split: if_splits)

text \<open>
  Claim C10. The approve branch looks the chosen flat type up without a guard: for the
  owning manager and a Pending application whose project lacks the flat type, approving
  raises \<^verbatim>\<open>KeyError\<close>. An application is only created for a flat type the project has,
  with more than zero units. So when a session starts without applications, then after any
  sequence of session requests every application names a project that has its chosen flat
  type, and no approval or rejection raises \<^verbatim>\<open>KeyError\<close>.
\<close>

theorem approval_lookup_present:
  "(deref (application_objs t) a = Some app \<and>
    deref (project_objs t) (BTOProject app) = Some p \<and> manager p = Some m \<and>
    applicationStatus app = ''Pending'' \<and> flatTypes p (chosen_flat_type app) = None \<longrightarrow>
      approveOrRejectApplication t m a True = Inl KeyError) \<and>
   (\<forall>who project ft t'. applyForProject t who project ft = Inr (Done, t') \<longrightarrow>
      (\<exists>q info. deref (project_objs t) project = Some q \<and> flatTypes q ft = Some info \<and>
         0 < units info)) \<and>
   (application_objs s0 = [] \<and> run s0 rs = Inr s \<longrightarrow>
      (\<forall>a app. deref (application_objs s) a = Some app \<longrightarrow>
         (\<exists>p. deref (project_objs s) (BTOProject app) = Some p \<and>
            chosen_flat_type app \<in> dom (flatTypes p))) \<and>
      (\<forall>m a d. approveOrRejectApplication s m a d \<noteq> Inl KeyError))"
proof -
  have 1: "approveOrRejectApplication t m a True = Inl KeyError"
    if "deref (application_objs t) a = Some app"
      "deref (project_objs t) (BTOProject app) = Some p" "manager p = Some m"
      "applicationStatus app = ''Pending''" "flatTypes p (chosen_flat_type app) = None"
    using that by (simp add: approveOrRejectApplication_def)
  have 2: "\<exists>q info. deref (project_objs t) project = Some q \<and> flatTypes q ft = Some info \<and>
      0 < units info"
    if "applyForProject t who project ft = Inr (Done, t')" for who project ft t'
    using that
    by (auto simp: applyForProject_def Let_def split: option.splits if_splits
        dest: eligibility_Some)
  have 3: "(\<forall>a app. deref (application_objs s) a = Some app \<longrightarrow>
         (\<exists>p. deref (project_objs s) (BTOProject app) = Some p \<and>
            chosen_flat_type app \<in> dom (flatTypes p))) \<and>
      (\<forall>m a d. approveOrRejectApplication s m a d \<noteq> Inl KeyError)"
    if "application_objs s0 = []" "run s0 rs = Inr s"
  proof -
    from that(1) have "has_flat_types s0"
      by (simp add: has_flat_types_def)
    with that(2) have h: "has_flat_types s"
      by (rule run_has_flat_types)
    then have "\<exists>p. deref (project_objs s) (BTOProject app) = Some p \<and>
            chosen_flat_type app \<in> dom (flatTypes p)"
      if "deref (application_objs s) a = Some app" for a app
      using that by (auto simp: has_flat_types_def deref_Some)
    with h show ?thesis
      by (simp add: has_flat_types_no_KeyError)
  qed
  from 1 2 3 show ?thesis
    by blast
qed

theorem approval_lookup_present_witness:
  "approveOrRejectApplication (estate_applied (alice_app\<lparr>chosen_flat_type := ''4-Room''\<rparr>)) 0 0 True =
     Inl KeyError \<and>
   application_objs estate = [] \<and>
   run estate [Apply (AnApplicant 0) 0 ''2-Room''] = Inr (estate_applied alice_app) \<and>
   chosen_flat_type alice_app \<in> dom (flatTypes acacia) \<and>
   approveOrRejectApplication (estate_applied alice_app) 0 0 True \<noteq> Inl KeyError"
proof -
  let ?app = "alice_app\<lparr>chosen_flat_type := ''4-Room''\<rparr>"
  have c: "BTOProject alice_app = 0" "applicationStatus alice_app = ''Pending''"
    "BTOProject ?app = 0" "applicationStatus ?app = ''Pending''"
    "chosen_flat_type ?app = ''4-Room''"
    by (simp_all add: alice_app_def)
  have p: "deref (project_objs (estate_applied ?app)) (BTOProject ?app) = Some acacia"
    by (simp add: c estate_objects)
  have 1: "approveOrRejectApplication (estate_applied ?app) 0 0 True = Inl KeyError"
    using approval_lookup_present [where t = "estate_applied ?app" and a = 0 and app = ?app
        and p = acacia and m = 0] estate_objects(7) [of ?app] p
    by (simp add: c acacia_fields)
  note n = approval_lookup_present [where ?s0.0 = estate and s = "estate_applied alice_app"
      and rs = "[Apply (AnApplicant 0) 0 ''2-Room'']"]
  have 2: "application_objs estate = []"
    by (rule estate_lists)
  from n 2 estate_run(1) estate_objects(7) [of alice_app]
  have "\<exists>p. deref (project_objs (estate_applied alice_app)) (BTOProject alice_app) = Some p \<and>
      chosen_flat_type alice_app \<in> dom (flatTypes p)"
    by blast
  then have 3: "chosen_flat_type alice_app \<in> dom (flatTypes acacia)"
    by (simp add: c estate_objects)
  from n 2 estate_run(1)
  have 4: "approveOrRejectApplication (estate_applied alice_app) 0 0 True \<noteq> Inl KeyError"
    by blast
  from 1 2 3 4 estate_run(1) show ?thesis
    by (simp only: simp_thms)
qed

section \<open>Booking\<close>

lemma estate_successful_objects:
  "deref (officer_objs estate_successful) 0 =
     Some (olive\<lparr>handling_project := Some 0, registration_status := Some ''Approved'',
                 registered_project := Some 0\<rparr>)"
  "deref (project_objs estate_successful) 0 = Some (acacia\<lparr>officers := [0]\<rparr>)"
  "application_objs estate_successful = [alice_app\<lparr>applicationStatus := ''Successful''\<rparr>]"
  by (simp_all add: deref_def estate_successful_def)

text \<open>
  Claim C6, as the code has it. Olive handles Acacia, and Alice's application for its last
  2-Room flat is Successful. The officer's booking update for one 2-Room flat takes the unit
  count from 1 to 0 through \<^verbatim>\<open>reduceUnits\<close>; the application is still Successful, not
  Booked.
\<close>

theorem booking_leaves_status:
  "updateFlatAvailability estate_successful 0 0 ''2-Room'' 1 =
     Inr (Done, estate_successful
       \<lparr>project_objs := [reduceUnits (acacia\<lparr>officers := [0]\<rparr>) ''2-Room'' 1]\<rparr>) \<and>
   flatTypes (reduceUnits (acacia\<lparr>officers := [0]\<rparr>) ''2-Room'' 1) ''2-Room'' =
     Some \<lparr>units = 0, price = 100\<rparr> \<and>
   map applicationStatus (application_objs estate_successful) = [''Successful''] \<and>
   map applicationStatus
     (application_objs (estate_successful
       \<lparr>project_objs := [reduceUnits (acacia\<lparr>officers := [0]\<rparr>) ''2-Room'' 1]\<rparr>)) =
     [''Successful'']"
proof -
  have l: "(project_objs estate_successful)[0 := q] = [q]" for q
    by (simp add: estate_successful_def)
  have 1: "updateFlatAvailability estate_successful 0 0 ''2-Room'' 1 =
     Inr (Done, estate_successful
       \<lparr>project_objs := [reduceUnits (acacia\<lparr>officers := [0]\<rparr>) ''2-Room'' 1]\<rparr>)"
    by (simp add: updateFlatAvailability_def estate_successful_objects l)
  have 2: "flatTypes (reduceUnits (acacia\<lparr>officers := [0]\<rparr>) ''2-Room'' 1) ''2-Room'' =
     Some \<lparr>units = 0, price = 100\<rparr>"
    by (simp add: reduceUnits_def acacia_fields Let_def)
  from 1 2 show ?thesis
    by (simp add: estate_successful_objects)
qed

text \<open>
  No session request sets Booked: an application that is Booked after a request was Booked
  before it.
\<close>

lemma no_request_books:
  assumes "step s r = Inr s'" and "a < length (application_objs s')"
    and "applicationStatus (application_objs s' ! a) = ''Booked''"
  shows "a < length (application_objs s) \<and> applicationStatus (application_objs s ! a) = ''Booked''"
  using assms by (rule step_never_books)

end
